theory Spec2Isabelle
  imports Complex_Main "HOL-Library.AList"
begin

section \<open>Python values\<close>

text \<open>
  The callback handler of \<^verbatim>\<open>langfuse/callback.py\<close> receives values typed \<^verbatim>\<open>Any\<close>:
  serialized descriptors, inputs, outputs, keyword arguments. They are modelled by one
  datatype of Python values. A \<^verbatim>\<open>dict\<close> with string keys is an association list in
  insertion order; an exception object handed to an error notification is identified by
  the text that \<^verbatim>\<open>str\<close> gives for it. A string is a list of characters, each a code
  point below 256.
\<close>

datatype error_obj = ErrorObj string

fun str_error :: "error_obj \<Rightarrow> string" where
  "str_error (ErrorObj msg) = msg"

datatype pyval =
    PNone
  | PBool bool
  | PInt int
  | PFloat rat
  | PStr string
  | PList "pyval list"
  | PDict "(string \<times> pyval) list"
  | PError error_obj

type_synonym dict = "(string \<times> pyval) list"

text \<open>The exceptions (all of them instances of \<^verbatim>\<open>Exception\<close>) that the handler's code raises.\<close>

datatype exn =
    Exception string
  | KeyError
  | IndexError
  | TypeError
  | AttributeError
  | ValueError string

text \<open>\<^verbatim>\<open>d.get(k, default)\<close>, \<^verbatim>\<open>d.get(k)\<close>, \<^verbatim>\<open>k in d\<close> and \<^verbatim>\<open>d.update(other)\<close>.\<close>

definition dict_get :: "dict \<Rightarrow> string \<Rightarrow> pyval \<Rightarrow> pyval" where
  "dict_get d k dflt = (case map_of d k of None \<Rightarrow> dflt | Some v \<Rightarrow> v)"

definition dict_has :: "dict \<Rightarrow> string \<Rightarrow> bool" where
  "dict_has d k = (map_of d k \<noteq> None)"

definition dict_update :: "dict \<Rightarrow> dict \<Rightarrow> dict" where
  "dict_update d other = fold (\<lambda>(k, v). AList.update k v) other d"

text \<open>
  \<^verbatim>\<open>x[-1]\<close>: the last character of a string, the last element of a list; IndexError
  when either is empty, KeyError on a mapping (its keys are strings), TypeError on a
  value that cannot be subscripted.
\<close>

fun py_last :: "pyval \<Rightarrow> exn + pyval" where
  "py_last (PStr s) = (if s = [] then Inl IndexError else Inr (PStr [last s]))"
| "py_last (PList xs) = (if xs = [] then Inl IndexError else Inr (last xs))"
| "py_last (PDict d) = Inl KeyError"
| "py_last v = Inl TypeError"

text \<open>
  \<^verbatim>\<open>s.strip()\<close>: leading and trailing whitespace removed. The whitespace among the code
  points below 256 is \<^verbatim>\<open>\t \n \x0b \x0c \r\<close>, \<^verbatim>\<open>\x1c\<close> to \<^verbatim>\<open>\x1f\<close>, the space,
  \<^verbatim>\<open>\x85\<close> and \<^verbatim>\<open>\xa0\<close>.
\<close>

definition is_space :: "char \<Rightarrow> bool" where
  "is_space c =
     (let n = (of_char c :: nat)
      in (9 \<le> n \<and> n \<le> 13) \<or> (28 \<le> n \<and> n \<le> 32) \<or> n = 133 \<or> n = 160)"

definition strip :: "string \<Rightarrow> string" where
  "strip s = rev (dropWhile is_space (rev (dropWhile is_space s)))"

section \<open>Name resolution and metadata merging\<close>

text \<open>
  \<^verbatim>\<open>get_langchain_run_name(self, serialized, **kwargs)\<close>:
  \<^verbatim>\<open>
    if "name" in kwargs and kwargs["name"] is not None:
        return kwargs["name"]
    return serialized.get("name", serialized.get("id", ["<unknown>"]))[-1]
  \<close>
  The subscript \<^verbatim>\<open>[-1]\<close> applies to the result of the outer \<^verbatim>\<open>get\<close>.
\<close>

definition unknown_id :: pyval where
  "unknown_id = PList [PStr ''<unknown>'']"

definition get_langchain_run_name :: "dict \<Rightarrow> dict \<Rightarrow> exn + pyval" where
  "get_langchain_run_name serialized kwargs =
     (if dict_has kwargs ''name'' \<and> dict_get kwargs ''name'' PNone \<noteq> PNone
      then Inr (dict_get kwargs ''name'' PNone)
      else py_last (dict_get serialized ''name'' (dict_get serialized ''id'' unknown_id)))"

text \<open>
  The name that the debug message of \<^verbatim>\<open>on_chain_start\<close> computes:
  \<^verbatim>\<open>serialized.get('name', serialized.get('id', ['<unknown>'])[-1])\<close>. Here the subscript
  applies to the \<^verbatim>\<open>id\<close> only; the default is evaluated before the outer \<^verbatim>\<open>get\<close>.
\<close>

definition debug_run_name :: "dict \<Rightarrow> exn + pyval" where
  "debug_run_name serialized =
     (case py_last (dict_get serialized ''id'' unknown_id) of
        Inl e \<Rightarrow> Inl e
      | Inr dflt \<Rightarrow> Inr (dict_get serialized ''name'' dflt))"

text \<open>
  \<^verbatim>\<open>__join_tags_and_metadata(self, tags, metadata)\<close>:
  \<^verbatim>\<open>
    if tags is None and metadata is None:
        return None
    elif tags is not None and len(tags) > 0:
        final_dict = {"tags": tags}
        if metadata is not None:
            final_dict.update(metadata)
        return final_dict
    else:
        return metadata
  \<close>
\<close>

definition join_tags_and_metadata :: "string list option \<Rightarrow> dict option \<Rightarrow> dict option" where
  "join_tags_and_metadata tags metadata =
     (if tags = None \<and> metadata = None then None
      else if tags \<noteq> None \<and> length (the tags) > 0 then
        (let final_dict = [(''tags'', PList (map PStr (the tags)))]
         in Some (if metadata \<noteq> None then dict_update final_dict (the metadata) else final_dict))
      else metadata)"

text \<open>
  \<^verbatim>\<open>_extract_response(last_response)\<close>:
  \<^verbatim>\<open>
    return (
        last_response.text.strip()
        if last_response.text is not None and last_response.text.strip() != ""
        else last_response.message.additional_kwargs
    )
  \<close>
  A candidate of a chat model carries a message; a plain completion candidate has no
  \<^verbatim>\<open>message\<close> attribute, and reading it raises AttributeError.
\<close>

record message =
  additional_kwargs :: dict

record candidate =
  c_text :: "string option"
  c_message :: "message option"

definition extract_response :: "candidate \<Rightarrow> exn + pyval" where
  "extract_response last_response =
     (if c_text last_response \<noteq> None \<and> strip (the (c_text last_response)) \<noteq> ''''
      then Inr (PStr (strip (the (c_text last_response))))
      else (case c_message last_response of
              None \<Rightarrow> Inl AttributeError
            | Some m \<Rightarrow> Inr (PDict (additional_kwargs m))))"

section \<open>Observation handles and the event queue\<close>

text \<open>
  Modelled from the spec: the Langfuse client (\<^verbatim>\<open>langfuse.client\<close>: \<^verbatim>\<open>Langfuse\<close>,
  \<^verbatim>\<open>StatefulTraceClient\<close>, \<^verbatim>\<open>StatefulSpanClient\<close> and their \<^verbatim>\<open>trace\<close>, \<^verbatim>\<open>span\<close>,
  \<^verbatim>\<open>generation\<close>, \<^verbatim>\<open>end\<close> and \<^verbatim>\<open>update\<close> methods) and the task manager are not among
  the sources. The spec's data model gives the handles as records: a trace handle
  \<open>{id, name, metadata, session_id, user_id, input, output}\<close>, a span handle
  \<open>{id, trace_id, parent_id, name, input, output, metadata}\<close> and a generation handle
  with \<open>model\<close>, \<open>model_parameters\<close> and \<open>usage\<close> in addition. Every handle supports
  \<open>end\<close>, which gives the updated, closed record, and the creation of a child linked to
  its parent; every created or updated record is forwarded as an event to the queue, and
  these operations never raise. Spans and generations share one record with a kind tag.
  The client draws a random identifier when none is passed; the model numbers them.
\<close>

datatype obs_id = GivenId string | FreshId nat

datatype obs_kind = SPAN | GENERATION

datatype observation_level = DEBUG | DEFAULT | WARNING | ERROR

record trace_handle =
  t_id :: string
  t_name :: pyval
  t_metadata :: "dict option"
  t_version :: "string option"
  t_session_id :: "string option"
  t_user_id :: "string option"
  t_input :: pyval
  t_output :: pyval

record observation =
  o_kind :: obs_kind
  o_id :: obs_id
  o_trace_id :: string
  o_parent_id :: "obs_id option"
  o_name :: pyval
  o_input :: pyval
  o_output :: pyval
  o_metadata :: "dict option"
  o_version :: "string option"
  o_level :: observation_level
  o_status_message :: "pyval option"
  o_model :: "string option"
  o_model_parameters :: dict
  o_usage :: pyval
  o_closed :: bool

text \<open>
  The events of the queue. The body of an \<^verbatim>\<open>sdk-log\<close> event holds the log text, the
  keyword arguments, the serialized descriptor and the exception, if any (the source
  sends \<^verbatim>\<open>str\<close> of each; the random event identifier and the timestamp are left out).
\<close>

datatype event =
    TraceCreate trace_handle
  | TraceUpdate trace_handle
  | ObservationCreate observation
  | ObservationUpdate observation
  | SdkLog string dict dict "exn option"

datatype log_entry = LogDebug string | LogWarning string | LogException exn

section \<open>The callback handler\<close>

text \<open>
  A run identifier is a UUID, identified here by its canonical text, which \<^verbatim>\<open>str\<close>
  returns. The keys of \<^verbatim>\<open>self.runs\<close> are the run identifiers of the notifications and,
  for a handler built on a span, that span's own identifier (a string, which is never
  equal to a UUID).
\<close>

datatype uuid = UUID string

fun str_uuid :: "uuid \<Rightarrow> string" where
  "str_uuid (UUID s) = s"

datatype run_key = UuidKey uuid | IdKey obs_id

record langfuse_client =
  public_key :: string
  secret_key :: string
  host :: string

text \<open>
  The attributes of \<^verbatim>\<open>CallbackHandler\<close>. \<open>task_manager\<close> is the queue of events handed to
  the task manager, \<open>logged\<close> what went to the logger \<^verbatim>\<open>langfuse\<close>, \<open>fresh\<close> the number of
  identifiers the client has drawn.
\<close>

record handler =
  next_span_id :: "string option"
  trace :: "trace_handle option"
  root_span :: "observation option"
  langfuse :: "langfuse_client option"
  version :: "string option"
  session_id :: "string option"
  user_id :: "string option"
  trace_name :: "string option"
  runs :: "run_key \<rightharpoonup> observation"
  task_manager :: "event list"
  logged :: "log_entry list"
  fresh :: nat

type_synonym result = "(exn + unit) \<times> handler"

definition raise :: "exn \<Rightarrow> handler \<Rightarrow> result" where
  "raise e h = (Inl e, h)"

definition return :: "handler \<Rightarrow> result" where
  "return h = (Inr (), h)"

definition log_debug :: "string \<Rightarrow> handler \<Rightarrow> handler" where
  "log_debug msg h = h\<lparr>logged := logged h @ [LogDebug msg]\<rparr>"

definition log_warning :: "string \<Rightarrow> handler \<Rightarrow> handler" where
  "log_warning msg h = h\<lparr>logged := logged h @ [LogWarning msg]\<rparr>"

definition log_exception :: "exn \<Rightarrow> handler \<Rightarrow> handler" where
  "log_exception e h = h\<lparr>logged := logged h @ [LogException e]\<rparr>"

text \<open>
  \<^verbatim>\<open>try: ... except Exception as e: self.log.exception(e)\<close> around the body of a
  notification method: what the caller of the method observes, and the handler after it.
\<close>

datatype outcome = Returned | Raised exn

definition try_except :: "result \<Rightarrow> outcome \<times> handler" where
  "try_except r = (case r of (Inl e, h) \<Rightarrow> (Returned, log_exception e h) | (Inr u, h) \<Rightarrow> (Returned, h))"

subsection \<open>The client's operations\<close>

definition add_task :: "event \<Rightarrow> handler \<Rightarrow> handler" where
  "add_task ev h = h\<lparr>task_manager := task_manager h @ [ev]\<rparr>"

definition client_trace ::
  "string \<Rightarrow> pyval \<Rightarrow> dict option \<Rightarrow> string option \<Rightarrow> string option \<Rightarrow> string option \<Rightarrow> pyval
     \<Rightarrow> handler \<Rightarrow> trace_handle \<times> handler" where
  "client_trace tid name metadata ver sid uid inp h =
     (let t = \<lparr>t_id = tid, t_name = name, t_metadata = metadata, t_version = ver,
                t_session_id = sid, t_user_id = uid, t_input = inp, t_output = PNone\<rparr>
      in (t, add_task (TraceCreate t) h))"

definition client_update :: "trace_handle \<Rightarrow> pyval \<Rightarrow> handler \<Rightarrow> trace_handle \<times> handler" where
  "client_update t out h = (let t' = t\<lparr>t_output := out\<rparr> in (t', add_task (TraceUpdate t') h))"

datatype parent = OfTrace trace_handle | OfObservation observation

fun parent_trace_id :: "parent \<Rightarrow> string" where
  "parent_trace_id (OfTrace t) = t_id t"
| "parent_trace_id (OfObservation ob) = o_trace_id ob"

fun parent_observation_id :: "parent \<Rightarrow> obs_id option" where
  "parent_observation_id (OfTrace t) = None"
| "parent_observation_id (OfObservation ob) = Some (o_id ob)"

definition client_child ::
  "obs_kind \<Rightarrow> parent \<Rightarrow> string option \<Rightarrow> pyval \<Rightarrow> pyval \<Rightarrow> dict option \<Rightarrow> string option
     \<Rightarrow> string option \<Rightarrow> dict \<Rightarrow> handler \<Rightarrow> observation \<times> handler" where
  "client_child kind par given_id name inp metadata ver model params h =
     (let oid = (case given_id of Some s \<Rightarrow> GivenId s | None \<Rightarrow> FreshId (fresh h));
          h' = (case given_id of Some s \<Rightarrow> h | None \<Rightarrow> h\<lparr>fresh := Suc (fresh h)\<rparr>);
          ob = \<lparr>o_kind = kind, o_id = oid, o_trace_id = parent_trace_id par,
                o_parent_id = parent_observation_id par, o_name = name, o_input = inp,
                o_output = PNone, o_metadata = metadata, o_version = ver, o_level = DEFAULT,
                o_status_message = None, o_model = model, o_model_parameters = params,
                o_usage = PNone, o_closed = False\<rparr>
      in (ob, add_task (ObservationCreate ob) h'))"

definition client_span ::
  "parent \<Rightarrow> string option \<Rightarrow> pyval \<Rightarrow> pyval \<Rightarrow> dict option \<Rightarrow> string option
     \<Rightarrow> handler \<Rightarrow> observation \<times> handler" where
  "client_span par given_id name inp metadata ver h =
     client_child SPAN par given_id name inp metadata ver None [] h"

definition client_generation ::
  "parent \<Rightarrow> pyval \<Rightarrow> pyval \<Rightarrow> dict option \<Rightarrow> string option \<Rightarrow> dict \<Rightarrow> string option
     \<Rightarrow> handler \<Rightarrow> observation \<times> handler" where
  "client_generation par name inp metadata model params ver h =
     client_child GENERATION par None name inp metadata ver model params h"

text \<open>
  \<open>end\<close> with the keyword arguments \<^verbatim>\<open>output\<close>, \<^verbatim>\<open>level\<close>, \<^verbatim>\<open>status_message\<close>, \<^verbatim>\<open>usage\<close>
  and \<^verbatim>\<open>version\<close>; an argument that is not passed leaves its field as it is.
\<close>

definition client_end ::
  "observation \<Rightarrow> pyval option \<Rightarrow> observation_level option \<Rightarrow> pyval option \<Rightarrow> pyval option
     \<Rightarrow> string option \<Rightarrow> handler \<Rightarrow> observation \<times> handler" where
  "client_end ob out level status usage ver h =
     (let ob' = ob\<lparr>o_output := (case out of None \<Rightarrow> o_output ob | Some v \<Rightarrow> v),
                    o_level := (case level of None \<Rightarrow> o_level ob | Some l \<Rightarrow> l),
                    o_status_message := (case status of None \<Rightarrow> o_status_message ob | Some m \<Rightarrow> Some m),
                    o_usage := (case usage of None \<Rightarrow> o_usage ob | Some u \<Rightarrow> u),
                    o_version := (case ver of None \<Rightarrow> o_version ob | Some v \<Rightarrow> Some v),
                    o_closed := True\<rparr>
      in (ob', add_task (ObservationUpdate ob') h))"

subsection \<open>Construction\<close>

text \<open>
  \<^verbatim>\<open>__init__\<close>: a handler is built on a trace client, on a span client, or stateless from
  the keys (given, or read from the environment); otherwise it raises ValueError. The
  transport options (\<^verbatim>\<open>debug\<close>, \<^verbatim>\<open>release\<close>, \<^verbatim>\<open>threads\<close>, \<^verbatim>\<open>flush_at\<close>, \<^verbatim>\<open>flush_interval\<close>,
  \<^verbatim>\<open>max_retries\<close>, \<^verbatim>\<open>timeout\<close>) are only forwarded to the client and are left out.
\<close>

datatype stateful_client = TraceClient trace_handle | SpanClient observation

definition truthy :: "string option \<Rightarrow> bool" where
  "truthy s = (s \<noteq> None \<and> the s \<noteq> [])"

definition blank_handler :: handler where
  "blank_handler =
     \<lparr>next_span_id = None, trace = None, root_span = None, langfuse = None, version = None,
      session_id = None, user_id = None, trace_name = None, runs = Map.empty,
      task_manager = [], logged = [], fresh = 0\<rparr>"

definition trace_of_span :: "observation \<Rightarrow> trace_handle" where
  "trace_of_span sp =
     \<lparr>t_id = o_trace_id sp, t_name = PNone, t_metadata = None, t_version = None,
      t_session_id = None, t_user_id = None, t_input = PNone, t_output = PNone\<rparr>"

definition init ::
  "(string \<rightharpoonup> string) \<Rightarrow> string option \<Rightarrow> string option \<Rightarrow> string option \<Rightarrow> stateful_client option
     \<Rightarrow> string option \<Rightarrow> string option \<Rightarrow> string option \<Rightarrow> string option \<Rightarrow> exn + handler" where
  "init environ pk sk hst client sid uid tname ver =
     (let prioritized_public_key = (if truthy pk then pk else environ ''LANGFUSE_PUBLIC_KEY'');
          prioritized_secret_key = (if truthy sk then sk else environ ''LANGFUSE_SECRET_KEY'');
          prioritized_host =
            (if truthy hst then the hst
             else (case environ ''LANGFUSE_HOST'' of
                     None \<Rightarrow> ''https://cloud.langfuse.com'' | Some x \<Rightarrow> x));
          h = blank_handler\<lparr>version := ver\<rparr>
      in case client of
           Some (TraceClient t) \<Rightarrow> Inr (h\<lparr>trace := Some t\<rparr>)
         | Some (SpanClient sp) \<Rightarrow>
             Inr (h\<lparr>root_span := Some sp, trace := Some (trace_of_span sp),
                    runs := [IdKey (o_id sp) \<mapsto> sp]\<rparr>)
         | None \<Rightarrow>
             if truthy prioritized_public_key \<and> truthy prioritized_secret_key then
               Inr (h\<lparr>langfuse := Some \<lparr>public_key = the prioritized_public_key,
                                         secret_key = the prioritized_secret_key,
                                         host = prioritized_host\<rparr>,
                      session_id := sid, user_id := uid, trace_name := tname\<rparr>)
             else Inl (ValueError
               ''Either provide a stateful langfuse object or both public_key and secret_key.''))"

subsection \<open>Bootstrapping the trace\<close>

text \<open>\<^verbatim>\<open>parent_run_id in self.runs\<close>; \<^verbatim>\<open>None\<close> is never a key.\<close>

definition in_runs :: "uuid option \<Rightarrow> handler \<Rightarrow> bool" where
  "in_runs parent_run_id h =
     (case parent_run_id of None \<Rightarrow> False | Some p \<Rightarrow> runs h (UuidKey p) \<noteq> None)"

text \<open>
  \<^verbatim>\<open>__generate_trace_and_parent(self, serialized, inputs, *, run_id, parent_run_id, tags,
  metadata, **kwargs)\<close>. Its body stands in a \<^verbatim>\<open>try\<close> of its own.
\<close>

definition generate_trace_and_parent_body ::
  "dict \<Rightarrow> pyval \<Rightarrow> uuid \<Rightarrow> uuid option \<Rightarrow> string list option \<Rightarrow> dict option \<Rightarrow> dict
     \<Rightarrow> handler \<Rightarrow> result" where
  "generate_trace_and_parent_body serialized inputs run_id parent_run_id tags metadata kwargs h =
     (case get_langchain_run_name serialized kwargs of
        Inl e \<Rightarrow> raise e h
      | Inr class_name \<Rightarrow>
          let h1 = (if trace h \<noteq> None \<and> parent_run_id = None \<and> langfuse h \<noteq> None
                    then h\<lparr>trace := None, runs := Map.empty\<rparr> else h)
          in if trace h1 = None \<and> langfuse h1 \<noteq> None then
               let (tr, h2) = client_trace (str_uuid run_id)
                                (if trace_name h1 \<noteq> None then PStr (the (trace_name h1)) else class_name)
                                (join_tags_and_metadata tags metadata) (version h1)
                                (session_id h1) (user_id h1) inputs h1;
                   h3 = h2\<lparr>trace := Some tr\<rparr>
               in if parent_run_id \<noteq> None \<and> in_runs parent_run_id h3 then
                    let (sp, h4) = client_span (OfTrace tr) (next_span_id h3) class_name inputs
                                     (join_tags_and_metadata tags metadata) (version h3) h3
                    in return (h4\<lparr>runs := (runs h4)(UuidKey run_id \<mapsto> sp)\<rparr>)
                  else return h3
             else return h1)"

definition generate_trace_and_parent ::
  "dict \<Rightarrow> pyval \<Rightarrow> uuid \<Rightarrow> uuid option \<Rightarrow> string list option \<Rightarrow> dict option \<Rightarrow> dict
     \<Rightarrow> handler \<Rightarrow> handler" where
  "generate_trace_and_parent serialized inputs run_id parent_run_id tags metadata kwargs h =
     snd (try_except
       (generate_trace_and_parent_body serialized inputs run_id parent_run_id tags metadata kwargs h))"

text \<open>\<^verbatim>\<open>self.version\<close> as a keyword argument.\<close>

definition opt_str :: "string option \<Rightarrow> pyval" where
  "opt_str s = (case s of None \<Rightarrow> PNone | Some x \<Rightarrow> PStr x)"

text \<open>
  \<^verbatim>\<open>_update_trace(self, run_id, parent_run_id, output)\<close>:
  \<^verbatim>\<open>
    if (parent_run_id is None and self.trace is not None
            and self.trace.id == str(run_id)):
        self.trace = self.trace.update(output=output)
  \<close>
\<close>

definition update_trace :: "uuid \<Rightarrow> uuid option \<Rightarrow> pyval \<Rightarrow> handler \<Rightarrow> handler" where
  "update_trace run_id parent_run_id out h =
     (if parent_run_id = None \<and> trace h \<noteq> None \<and> t_id (the (trace h)) = str_uuid run_id
      then (let (tr, h1) = client_update (the (trace h)) out h in h1\<lparr>trace := Some tr\<rparr>)
      else h)"

text \<open>\<^verbatim>\<open>setNextSpan(self, id)\<close>.\<close>

definition setNextSpan :: "string \<Rightarrow> handler \<Rightarrow> handler" where
  "setNextSpan i h = h\<lparr>next_span_id := Some i\<rparr>"

subsection \<open>Chains\<close>

text \<open>
  \<^verbatim>\<open>on_chain_start\<close>. The debug message is formatted first, inside the \<^verbatim>\<open>try\<close>. The call
  \<^verbatim>\<open>self.__generate_trace_and_parent(..., version=self.version, **kwargs)\<close> is a TypeError
  when \<^verbatim>\<open>kwargs\<close> has a \<^verbatim>\<open>version\<close> of its own.
\<close>

definition on_chain_start_body ::
  "dict \<Rightarrow> pyval \<Rightarrow> uuid \<Rightarrow> uuid option \<Rightarrow> string list option \<Rightarrow> dict option \<Rightarrow> dict
     \<Rightarrow> handler \<Rightarrow> result" where
  "on_chain_start_body serialized inputs run_id parent_run_id tags metadata kwargs h =
     (case debug_run_name serialized of
        Inl e \<Rightarrow> raise e h
      | Inr shown \<Rightarrow>
          let h0 = log_debug ''on chain start'' h
          in if dict_has kwargs ''version'' then raise TypeError h0
             else
               let h1 = generate_trace_and_parent serialized inputs run_id parent_run_id tags metadata
                          ((''version'', opt_str (version h0)) # kwargs) h0
               in case trace h1 of
                    None \<Rightarrow> raise AttributeError h1
                  | Some tr \<Rightarrow>
                      (case get_langchain_run_name serialized kwargs of
                         Inl e \<Rightarrow> raise e h1
                       | Inr name \<Rightarrow>
                           let meta = join_tags_and_metadata tags metadata
                           in case parent_run_id of
                                None \<Rightarrow>
                                  let (sp, h2) =
                                        (if root_span h1 = None
                                         then client_span (OfTrace tr) (next_span_id h1) name inputs meta
                                                (version h1) h1
                                         else client_span (OfObservation (the (root_span h1)))
                                                (next_span_id h1) name inputs meta (version h1) h1)
                                  in return (h2\<lparr>runs := (runs h2)(UuidKey run_id \<mapsto> sp)\<rparr>)
                              | Some p \<Rightarrow>
                                  (case runs h1 (UuidKey p) of
                                     None \<Rightarrow> raise KeyError h1
                                   | Some par \<Rightarrow>
                                       let (sp, h2) = client_span (OfObservation par) (next_span_id h1)
                                                        name inputs meta (version h1) h1
                                       in return (h2\<lparr>runs := (runs h2)(UuidKey run_id \<mapsto> sp)\<rparr>))))"

definition on_chain_start ::
  "dict \<Rightarrow> pyval \<Rightarrow> uuid \<Rightarrow> uuid option \<Rightarrow> string list option \<Rightarrow> dict option \<Rightarrow> dict
     \<Rightarrow> handler \<Rightarrow> outcome \<times> handler" where
  "on_chain_start serialized inputs run_id parent_run_id tags metadata kwargs h =
     try_except (on_chain_start_body serialized inputs run_id parent_run_id tags metadata kwargs h)"

text \<open>
  The end notifications that close a run with an output and then call \<^verbatim>\<open>_update_trace\<close>
  share one body (\<^verbatim>\<open>on_chain_end\<close>, \<^verbatim>\<open>on_tool_end\<close>, \<^verbatim>\<open>on_retriever_end\<close>,
  \<^verbatim>\<open>on_agent_finish\<close>):
  \<^verbatim>\<open>
    if run_id not in self.runs:
        raise Exception("run not found")
    self.runs[run_id] = self.runs[run_id].end(output=outputs, version=self.version)
    self._update_trace(run_id, parent_run_id, outputs)
  \<close>
  A keyword argument that a method only prints in its debug message is left out.
\<close>

definition end_run_body :: "string \<Rightarrow> pyval \<Rightarrow> uuid \<Rightarrow> uuid option \<Rightarrow> handler \<Rightarrow> result" where
  "end_run_body msg out run_id parent_run_id h =
     (let h0 = log_debug msg h
      in if runs h0 (UuidKey run_id) = None then raise (Exception ''run not found'') h0
         else
           let (ob, h1) = client_end (the (runs h0 (UuidKey run_id))) (Some out) None None None
                            (version h0) h0;
               h2 = h1\<lparr>runs := (runs h1)(UuidKey run_id \<mapsto> ob)\<rparr>
           in return (update_trace run_id parent_run_id out h2))"

definition on_chain_end :: "pyval \<Rightarrow> uuid \<Rightarrow> uuid option \<Rightarrow> handler \<Rightarrow> outcome \<times> handler" where
  "on_chain_end outputs run_id parent_run_id h =
     try_except (end_run_body ''on chain end'' outputs run_id parent_run_id h)"

text \<open>
  \<^verbatim>\<open>on_chain_error\<close> reads \<^verbatim>\<open>self.runs[run_id]\<close> without a check (KeyError), closes the run
  with \<^verbatim>\<open>level=ObservationLevel.ERROR, status_message=str(error)\<close>, and hands the error
  object to \<^verbatim>\<open>_update_trace\<close>. \<^verbatim>\<open>on_llm_error\<close> has the same body.
\<close>

definition error_run_body :: "string \<Rightarrow> error_obj \<Rightarrow> uuid \<Rightarrow> uuid option \<Rightarrow> handler \<Rightarrow> result" where
  "error_run_body msg error run_id parent_run_id h =
     (let h0 = log_debug msg h
      in case runs h0 (UuidKey run_id) of
           None \<Rightarrow> raise KeyError h0
         | Some run \<Rightarrow>
             let (ob, h1) = client_end run None (Some ERROR) (Some (PStr (str_error error))) None
                              (version h0) h0;
                 h2 = h1\<lparr>runs := (runs h1)(UuidKey run_id \<mapsto> ob)\<rparr>
             in return (update_trace run_id parent_run_id (PError error) h2))"

definition on_chain_error :: "error_obj \<Rightarrow> uuid \<Rightarrow> uuid option \<Rightarrow> handler \<Rightarrow> outcome \<times> handler" where
  "on_chain_error error run_id parent_run_id h =
     try_except (error_run_body ''on chain error'' error run_id parent_run_id h)"

subsection \<open>Agents\<close>

text \<open>\<^verbatim>\<open>on_agent_action\<close> closes the run with the action as output; the trace is not touched.\<close>

definition on_agent_action_body :: "pyval \<Rightarrow> uuid \<Rightarrow> uuid option \<Rightarrow> handler \<Rightarrow> result" where
  "on_agent_action_body action run_id parent_run_id h =
     (let h0 = log_debug ''on agent action'' h
      in if runs h0 (UuidKey run_id) = None then raise (Exception ''run not found'') h0
         else
           let (ob, h1) = client_end (the (runs h0 (UuidKey run_id))) (Some action) None None None
                            (version h0) h0
           in return (h1\<lparr>runs := (runs h1)(UuidKey run_id \<mapsto> ob)\<rparr>))"

definition on_agent_action :: "pyval \<Rightarrow> uuid \<Rightarrow> uuid option \<Rightarrow> handler \<Rightarrow> outcome \<times> handler" where
  "on_agent_action action run_id parent_run_id h =
     try_except (on_agent_action_body action run_id parent_run_id h)"

definition on_agent_finish :: "pyval \<Rightarrow> uuid \<Rightarrow> uuid option \<Rightarrow> handler \<Rightarrow> outcome \<times> handler" where
  "on_agent_finish finish run_id parent_run_id h =
     try_except (end_run_body ''on agent finish'' finish run_id parent_run_id h)"

subsection \<open>Tools and retrievers\<close>

text \<open>
  \<^verbatim>\<open>on_tool_start\<close>:
  \<^verbatim>\<open>
    if parent_run_id is None or parent_run_id not in self.runs:
        raise Exception("parent run not found")
    meta = self.__join_tags_and_metadata(tags, metadata)
    meta.update({key: value for key, value in kwargs.items() if value is not None})
    self.runs[run_id] = self.runs[parent_run_id].span(id=self.next_span_id,
        name=self.get_langchain_run_name(serialized, **kwargs), input=input_str,
        metadata=meta, version=self.version)
    self.next_span_id = None
  \<close>
  \<^verbatim>\<open>meta.update\<close> is an AttributeError when the merged metadata is \<^verbatim>\<open>None\<close>.
\<close>

definition on_tool_start_body ::
  "dict \<Rightarrow> string \<Rightarrow> uuid \<Rightarrow> uuid option \<Rightarrow> string list option \<Rightarrow> dict option \<Rightarrow> dict
     \<Rightarrow> handler \<Rightarrow> result" where
  "on_tool_start_body serialized input_str run_id parent_run_id tags metadata kwargs h =
     (let h0 = log_debug ''on tool start'' h
      in if parent_run_id = None \<or> \<not> in_runs parent_run_id h0
         then raise (Exception ''parent run not found'') h0
         else
           case join_tags_and_metadata tags metadata of
             None \<Rightarrow> raise AttributeError h0
           | Some joined \<Rightarrow>
               let meta = dict_update joined (filter (\<lambda>(key, value). value \<noteq> PNone) kwargs)
               in case get_langchain_run_name serialized kwargs of
                    Inl e \<Rightarrow> raise e h0
                  | Inr name \<Rightarrow>
                      let (sp, h1) = client_span
                                       (OfObservation (the (runs h0 (UuidKey (the parent_run_id)))))
                                       (next_span_id h0) name (PStr input_str) (Some meta)
                                       (version h0) h0
                      in return (h1\<lparr>runs := (runs h1)(UuidKey run_id \<mapsto> sp),
                                     next_span_id := None\<rparr>))"

definition on_tool_start ::
  "dict \<Rightarrow> string \<Rightarrow> uuid \<Rightarrow> uuid option \<Rightarrow> string list option \<Rightarrow> dict option \<Rightarrow> dict
     \<Rightarrow> handler \<Rightarrow> outcome \<times> handler" where
  "on_tool_start serialized input_str run_id parent_run_id tags metadata kwargs h =
     try_except (on_tool_start_body serialized input_str run_id parent_run_id tags metadata kwargs h)"

text \<open>\<^verbatim>\<open>on_retriever_start\<close>: the same guard; the merged metadata is passed as it is.\<close>

definition on_retriever_start_body ::
  "dict \<Rightarrow> string \<Rightarrow> uuid \<Rightarrow> uuid option \<Rightarrow> string list option \<Rightarrow> dict option \<Rightarrow> dict
     \<Rightarrow> handler \<Rightarrow> result" where
  "on_retriever_start_body serialized query run_id parent_run_id tags metadata kwargs h =
     (let h0 = log_debug ''on retriever start'' h
      in if parent_run_id = None \<or> \<not> in_runs parent_run_id h0
         then raise (Exception ''parent run not found'') h0
         else
           case get_langchain_run_name serialized kwargs of
             Inl e \<Rightarrow> raise e h0
           | Inr name \<Rightarrow>
               let (sp, h1) = client_span
                                (OfObservation (the (runs h0 (UuidKey (the parent_run_id)))))
                                (next_span_id h0) name (PStr query)
                                (join_tags_and_metadata tags metadata) (version h0) h0
               in return (h1\<lparr>runs := (runs h1)(UuidKey run_id \<mapsto> sp), next_span_id := None\<rparr>))"

definition on_retriever_start ::
  "dict \<Rightarrow> string \<Rightarrow> uuid \<Rightarrow> uuid option \<Rightarrow> string list option \<Rightarrow> dict option \<Rightarrow> dict
     \<Rightarrow> handler \<Rightarrow> outcome \<times> handler" where
  "on_retriever_start serialized query run_id parent_run_id tags metadata kwargs h =
     try_except (on_retriever_start_body serialized query run_id parent_run_id tags metadata kwargs h)"

text \<open>
  \<^verbatim>\<open>on_retriever_end\<close> and \<^verbatim>\<open>on_tool_end\<close> test \<^verbatim>\<open>run_id is None or run_id not in self.runs\<close>;
  a run identifier is a UUID, never \<^verbatim>\<open>None\<close>.
\<close>

definition on_retriever_end :: "pyval \<Rightarrow> uuid \<Rightarrow> uuid option \<Rightarrow> handler \<Rightarrow> outcome \<times> handler" where
  "on_retriever_end documents run_id parent_run_id h =
     try_except (end_run_body ''on retriever end'' documents run_id parent_run_id h)"

definition on_tool_end :: "string \<Rightarrow> uuid \<Rightarrow> uuid option \<Rightarrow> handler \<Rightarrow> outcome \<times> handler" where
  "on_tool_end output run_id parent_run_id h =
     try_except (end_run_body ''on tool end'' (PStr output) run_id parent_run_id h)"

text \<open>
  \<^verbatim>\<open>on_tool_error\<close>:
  \<^verbatim>\<open>
    if run_id is None or run_id not in self.runs:
        raise Exception("run not found")
    self.runs[run_id] = self.runs[run_id].end(
        status_message=error, level=ObservationLevel.ERROR, version=self.version)
    self._update_trace(run_id, parent_run_id, error)
  \<close>
\<close>

definition on_tool_error_body :: "error_obj \<Rightarrow> uuid \<Rightarrow> uuid option \<Rightarrow> handler \<Rightarrow> result" where
  "on_tool_error_body error run_id parent_run_id h =
     (let h0 = log_debug ''on tool error'' h
      in if runs h0 (UuidKey run_id) = None then raise (Exception ''run not found'') h0
         else
           let (ob, h1) = client_end (the (runs h0 (UuidKey run_id))) None (Some ERROR)
                            (Some (PError error)) None (version h0) h0;
               h2 = h1\<lparr>runs := (runs h1)(UuidKey run_id \<mapsto> ob)\<rparr>
           in return (update_trace run_id parent_run_id (PError error) h2))"

definition on_tool_error :: "error_obj \<Rightarrow> uuid \<Rightarrow> uuid option \<Rightarrow> handler \<Rightarrow> outcome \<times> handler" where
  "on_tool_error error run_id parent_run_id h =
     try_except (on_tool_error_body error run_id parent_run_id h)"

text \<open>
  \<^verbatim>\<open>on_retriever_error\<close>:
  \<^verbatim>\<open>
    if run_id is None or run_id not in self.runs:
        raise Exception("run not found")
    self.runs[run_id] = self.runs[run_id].end(
        level=ObservationLevel.ERROR, status_message=str(error), version=self.version)
  \<close>
\<close>

definition on_retriever_error_body :: "error_obj \<Rightarrow> uuid \<Rightarrow> uuid option \<Rightarrow> handler \<Rightarrow> result" where
  "on_retriever_error_body error run_id parent_run_id h =
     (let h0 = log_debug ''on retriever error'' h
      in if runs h0 (UuidKey run_id) = None then raise (Exception ''run not found'') h0
         else
           let (ob, h1) = client_end (the (runs h0 (UuidKey run_id))) None (Some ERROR)
                            (Some (PStr (str_error error))) None (version h0) h0
           in return (h1\<lparr>runs := (runs h1)(UuidKey run_id \<mapsto> ob)\<rparr>))"

definition on_retriever_error :: "error_obj \<Rightarrow> uuid \<Rightarrow> uuid option \<Rightarrow> handler \<Rightarrow> outcome \<times> handler" where
  "on_retriever_error error run_id parent_run_id h =
     try_except (on_retriever_error_body error run_id parent_run_id h)"

subsection \<open>Model calls\<close>

text \<open>
  \<^verbatim>\<open>_report_error\<close> hands an \<^verbatim>\<open>sdk-log\<close> event to the task manager.
  \<^verbatim>\<open>_parse_model_and_log_errors(self, serialized, kwargs)\<close> calls \<^verbatim>\<open>_extract_model_name\<close> of
  \<^verbatim>\<open>langfuse.extract_model\<close>, which is not among the sources: it is a parameter here, a
  function that returns a model name or \<^verbatim>\<open>None\<close>, or raises.
\<close>

definition report_error :: "string \<Rightarrow> dict \<Rightarrow> dict \<Rightarrow> exn option \<Rightarrow> handler \<Rightarrow> handler" where
  "report_error msg kwargs serialized e h = add_task (SdkLog msg kwargs serialized e) h"

definition model_warning :: string where
  "model_warning = ''Langfuse was not able to parse the LLM model.''"

definition parse_model_and_log_errors ::
  "(dict \<Rightarrow> dict \<Rightarrow> exn + string option) \<Rightarrow> dict \<Rightarrow> dict \<Rightarrow> handler \<Rightarrow> string option \<times> handler" where
  "parse_model_and_log_errors extract_model_name serialized kwargs h =
     (case extract_model_name serialized kwargs of
        Inl e \<Rightarrow>
          (None, report_error ''unable to parse model name'' kwargs serialized (Some e)
                   (log_warning model_warning (log_exception e h)))
      | Inr model_name \<Rightarrow>
          if truthy model_name then (model_name, h)
          else if model_name = None then
            (None, report_error ''unable to parse model name'' kwargs serialized None
                     (log_warning model_warning h))
          else (None, h))"

text \<open>
  The \<^verbatim>\<open>model_parameters\<close> of \<^verbatim>\<open>__on_llm_action\<close>: a comprehension over six
  \<^verbatim>\<open>kwargs["invocation_params"].get(key)\<close>, keeping the values that are not \<^verbatim>\<open>None\<close>.
\<close>

definition parameter_keys :: "string list" where
  "parameter_keys = [''temperature'', ''max_tokens'', ''top_p'', ''frequency_penalty'',
                     ''presence_penalty'', ''request_timeout'']"

definition model_parameters :: "dict \<Rightarrow> dict" where
  "model_parameters invocation_params =
     filter (\<lambda>(key, value). value \<noteq> PNone)
       (map (\<lambda>key. (key, dict_get invocation_params key PNone)) parameter_keys)"

text \<open>\<^verbatim>\<open>kwargs["invocation_params"]\<close> and its \<^verbatim>\<open>get\<close> attribute.\<close>

definition invocation_params :: "dict \<Rightarrow> exn + dict" where
  "invocation_params kwargs =
     (case map_of kwargs ''invocation_params'' of
        None \<Rightarrow> Inl KeyError
      | Some (PDict d) \<Rightarrow> Inr d
      | Some v \<Rightarrow> Inl AttributeError)"

text \<open>
  \<^verbatim>\<open>__on_llm_action(self, serialized, run_id, prompts, parent_run_id, tags, metadata,
  **kwargs)\<close>, with a \<^verbatim>\<open>try\<close> of its own. The trace is bootstrapped with the keyword
  arguments \<^verbatim>\<open>version=self.version, kwargs=kwargs\<close>. The generation becomes a child of the
  registered parent, else of the root span when there is one and no parent, else of the
  trace.
\<close>

definition on_llm_action_body ::
  "(dict \<Rightarrow> dict \<Rightarrow> exn + string option) \<Rightarrow> dict \<Rightarrow> uuid \<Rightarrow> pyval \<Rightarrow> uuid option
     \<Rightarrow> string list option \<Rightarrow> dict option \<Rightarrow> dict \<Rightarrow> handler \<Rightarrow> result" where
  "on_llm_action_body extract_model_name serialized run_id prompts parent_run_id tags metadata kwargs h =
     (let h1 = generate_trace_and_parent serialized prompts run_id parent_run_id tags metadata
                 [(''version'', opt_str (version h)), (''kwargs'', PDict kwargs)] h;
          (model_name, h2) = parse_model_and_log_errors extract_model_name serialized kwargs h1
      in case get_langchain_run_name serialized kwargs of
           Inl e \<Rightarrow> raise e h2
         | Inr name \<Rightarrow>
             let meta = join_tags_and_metadata tags metadata
             in case invocation_params kwargs of
                  Inl e \<Rightarrow> raise e h2
                | Inr ip \<Rightarrow>
                    if in_runs parent_run_id h2 then
                      let (g, h3) = client_generation
                                      (OfObservation (the (runs h2 (UuidKey (the parent_run_id)))))
                                      name prompts meta model_name (model_parameters ip)
                                      (version h2) h2
                      in return (h3\<lparr>runs := (runs h3)(UuidKey run_id \<mapsto> g)\<rparr>)
                    else if root_span h2 \<noteq> None \<and> parent_run_id = None then
                      let (g, h3) = client_generation (OfObservation (the (root_span h2)))
                                      name prompts meta model_name (model_parameters ip)
                                      (version h2) h2
                      in return (h3\<lparr>runs := (runs h3)(UuidKey run_id \<mapsto> g)\<rparr>)
                    else
                      (case trace h2 of
                         None \<Rightarrow> raise AttributeError h2
                       | Some tr \<Rightarrow>
                           let (g, h3) = client_generation (OfTrace tr) name prompts meta
                                           model_name (model_parameters ip) (version h2) h2
                           in return (h3\<lparr>runs := (runs h3)(UuidKey run_id \<mapsto> g)\<rparr>)))"

definition on_llm_action ::
  "(dict \<Rightarrow> dict \<Rightarrow> exn + string option) \<Rightarrow> dict \<Rightarrow> uuid \<Rightarrow> pyval \<Rightarrow> uuid option
     \<Rightarrow> string list option \<Rightarrow> dict option \<Rightarrow> dict \<Rightarrow> handler \<Rightarrow> handler" where
  "on_llm_action extract_model_name serialized run_id prompts parent_run_id tags metadata kwargs h =
     snd (try_except (on_llm_action_body extract_model_name serialized run_id prompts
                        parent_run_id tags metadata kwargs h))"

definition on_llm_start ::
  "(dict \<Rightarrow> dict \<Rightarrow> exn + string option) \<Rightarrow> dict \<Rightarrow> pyval \<Rightarrow> uuid \<Rightarrow> uuid option
     \<Rightarrow> string list option \<Rightarrow> dict option \<Rightarrow> dict \<Rightarrow> handler \<Rightarrow> outcome \<times> handler" where
  "on_llm_start extract_model_name serialized prompts run_id parent_run_id tags metadata kwargs h =
     try_except (return (on_llm_action extract_model_name serialized run_id prompts parent_run_id
                           tags metadata kwargs (log_debug ''on llm start'' h)))"

text \<open>
  \<^verbatim>\<open>on_chat_model_start\<close> passes its \<^verbatim>\<open>messages\<close> in the place of \<^verbatim>\<open>prompts\<close>; the call
  \<^verbatim>\<open>self.__on_llm_action(serialized, run_id, messages, parent_run_id, ..., **kwargs)\<close> is a
  TypeError when \<^verbatim>\<open>kwargs\<close> has a \<^verbatim>\<open>prompts\<close> of its own.
\<close>

definition on_chat_model_start_body ::
  "(dict \<Rightarrow> dict \<Rightarrow> exn + string option) \<Rightarrow> dict \<Rightarrow> pyval \<Rightarrow> uuid \<Rightarrow> uuid option
     \<Rightarrow> string list option \<Rightarrow> dict option \<Rightarrow> dict \<Rightarrow> handler \<Rightarrow> result" where
  "on_chat_model_start_body extract_model_name serialized messages run_id parent_run_id tags metadata kwargs h =
     (let h0 = log_debug ''on chat model start'' h
      in if dict_has kwargs ''prompts'' then raise TypeError h0
         else return (on_llm_action extract_model_name serialized run_id messages parent_run_id
                        tags metadata kwargs h0))"

definition on_chat_model_start ::
  "(dict \<Rightarrow> dict \<Rightarrow> exn + string option) \<Rightarrow> dict \<Rightarrow> pyval \<Rightarrow> uuid \<Rightarrow> uuid option
     \<Rightarrow> string list option \<Rightarrow> dict option \<Rightarrow> dict \<Rightarrow> handler \<Rightarrow> outcome \<times> handler" where
  "on_chat_model_start extract_model_name serialized messages run_id parent_run_id tags metadata kwargs h =
     try_except (on_chat_model_start_body extract_model_name serialized messages run_id
                   parent_run_id tags metadata kwargs h)"

text \<open>
  \<^verbatim>\<open>on_llm_end\<close>:
  \<^verbatim>\<open>
    if run_id not in self.runs:
        raise Exception("Run not found, see docs what to do in this case.")
    else:
        last_response = response.generations[-1][-1]
        llm_usage = (None if response.llm_output is None
                     else response.llm_output["token_usage"])
        extracted_response = _extract_response(last_response)
        self.runs[run_id] = self.runs[run_id].end(
            output=extracted_response, usage=llm_usage, version=self.version)
        self._update_trace(run_id, parent_run_id, extracted_response)
  \<close>
\<close>

record llm_result =
  generations :: "candidate list list"
  llm_output :: "dict option"

definition last_candidate :: "llm_result \<Rightarrow> exn + candidate" where
  "last_candidate response =
     (if generations response = [] then Inl IndexError
      else if last (generations response) = [] then Inl IndexError
      else Inr (last (last (generations response))))"

definition token_usage :: "llm_result \<Rightarrow> exn + pyval" where
  "token_usage response =
     (case llm_output response of
        None \<Rightarrow> Inr PNone
      | Some out \<Rightarrow> (case map_of out ''token_usage'' of None \<Rightarrow> Inl KeyError | Some u \<Rightarrow> Inr u))"

definition on_llm_end_body :: "llm_result \<Rightarrow> uuid \<Rightarrow> uuid option \<Rightarrow> handler \<Rightarrow> result" where
  "on_llm_end_body response run_id parent_run_id h =
     (let h0 = log_debug ''on llm end'' h
      in if runs h0 (UuidKey run_id) = None
         then raise (Exception ''Run not found, see docs what to do in this case.'') h0
         else
           case last_candidate response of
             Inl e \<Rightarrow> raise e h0
           | Inr last_response \<Rightarrow>
               (case token_usage response of
                  Inl e \<Rightarrow> raise e h0
                | Inr llm_usage \<Rightarrow>
                    (case extract_response last_response of
                       Inl e \<Rightarrow> raise e h0
                     | Inr extracted_response \<Rightarrow>
                         let (ob, h1) = client_end (the (runs h0 (UuidKey run_id)))
                                          (Some extracted_response) None None (Some llm_usage)
                                          (version h0) h0;
                             h2 = h1\<lparr>runs := (runs h1)(UuidKey run_id \<mapsto> ob)\<rparr>
                         in return (update_trace run_id parent_run_id extracted_response h2))))"

definition on_llm_end :: "llm_result \<Rightarrow> uuid \<Rightarrow> uuid option \<Rightarrow> handler \<Rightarrow> outcome \<times> handler" where
  "on_llm_end response run_id parent_run_id h =
     try_except (on_llm_end_body response run_id parent_run_id h)"

definition on_llm_error :: "error_obj \<Rightarrow> uuid \<Rightarrow> uuid option \<Rightarrow> handler \<Rightarrow> outcome \<times> handler" where
  "on_llm_error error run_id parent_run_id h =
     try_except (error_run_body ''on llm error'' error run_id parent_run_id h)"

section \<open>Properties\<close>

text \<open>
  A notification is a no-op on a handler when it returns and leaves the registry, the
  active trace, the root span and the event queue as they were.
\<close>

definition no_op :: "handler \<Rightarrow> outcome \<times> handler \<Rightarrow> bool" where
  "no_op h r =
     (fst r = Returned \<and> runs (snd r) = runs h \<and> trace (snd r) = trace h
      \<and> root_span (snd r) = root_span h \<and> task_manager (snd r) = task_manager h)"

text \<open>The number of traces that have been created, read off the event queue.\<close>

fun is_trace_create :: "event \<Rightarrow> bool" where
  "is_trace_create (TraceCreate t) = True"
| "is_trace_create ev = False"

definition traces_created :: "handler \<Rightarrow> nat" where
  "traces_created h = length (filter is_trace_create (task_manager h))"

text \<open>The diagnostic events of the queue.\<close>

fun is_sdk_log :: "event \<Rightarrow> bool" where
  "is_sdk_log (SdkLog msg kwargs serialized e) = True"
| "is_sdk_log ev = False"

text \<open>The last entry of the log is an exception.\<close>

definition failure_logged :: "handler \<Rightarrow> bool" where
  "failure_logged h = (logged h \<noteq> [] \<and> (case last (logged h) of LogException e \<Rightarrow> True | entry \<Rightarrow> False))"

text \<open>The diagnostic events in the queue of a handler, in order.\<close>

definition sdk_logs :: "handler \<Rightarrow> event list" where
  "sdk_logs h = filter is_sdk_log (task_manager h)"

text \<open>
  The diagnostic event that a failed extraction of the model name reports: one event when
  the extractor raises or returns \<^verbatim>\<open>None\<close>, none when it returns a name (or an empty name).
\<close>

definition model_name_report ::
  "(dict \<Rightarrow> dict \<Rightarrow> exn + string option) \<Rightarrow> dict \<Rightarrow> dict \<Rightarrow> event list" where
  "model_name_report ex serialized kwargs =
     (case ex serialized kwargs of
        Inl e \<Rightarrow> [SdkLog ''unable to parse model name'' kwargs serialized (Some e)]
      | Inr None \<Rightarrow> [SdkLog ''unable to parse model name'' kwargs serialized None]
      | Inr (Some name) \<Rightarrow> [])"

text \<open>
  The log of the second handler continues the log of the first; and it continues it and
  ends with an exception that was logged in between.
\<close>

definition log_continues :: "handler \<Rightarrow> handler \<Rightarrow> bool" where
  "log_continues h h' = (\<exists>entries. logged h' = logged h @ entries)"

definition logs_failure :: "handler \<Rightarrow> handler \<Rightarrow> bool" where
  "logs_failure h h' = (\<exists>entries e. logged h' = logged h @ entries @ [LogException e])"

subsection \<open>A sample execution\<close>

text \<open>
  A stateless handler built from keys, the descriptor of a chain, and the handler after
  the start of a root chain \<open>run-a\<close>.
\<close>

definition keyed_handler :: handler where
  "keyed_handler =
     blank_handler\<lparr>langfuse := Some \<lparr>public_key = ''pk'', secret_key = ''sk'',
                                       host = ''https://cloud.langfuse.com''\<rparr>\<rparr>"

definition chain_descriptor :: dict where
  "chain_descriptor = [(''id'', PList [PStr ''langchain'', PStr ''chains'', PStr ''LLMChain''])]"

definition root_started :: handler where
  "root_started =
     snd (on_chain_start chain_descriptor (PStr ''hi'') (UUID ''run-a'') None None None []
            keyed_handler)"

text \<open>A model-name extractor that finds no name, and one that raises.\<close>

definition no_model_name :: "dict \<Rightarrow> dict \<Rightarrow> exn + string option" where
  "no_model_name serialized kwargs = Inr None"

definition gpt_model_name :: "dict \<Rightarrow> dict \<Rightarrow> exn + string option" where
  "gpt_model_name serialized kwargs = Inr (Some ''gpt-4'')"

text \<open>The descriptor of a tool, and the handler after the start of a tool \<open>run-b\<close> under \<open>run-a\<close>.\<close>

definition tool_descriptor :: dict where
  "tool_descriptor = [(''id'', PList [PStr ''langchain'', PStr ''tools'', PStr ''Calculator''])]"

definition tool_started :: handler where
  "tool_started =
     snd (on_tool_start tool_descriptor ''2+2'' (UUID ''run-b'') (Some (UUID ''run-a''))
            (Some []) (Some []) [] root_started)"

text \<open>The descriptor of a chat model and the keyword arguments of its start notification.\<close>

definition llm_descriptor :: dict where
  "llm_descriptor = [(''id'', PList [PStr ''langchain'', PStr ''chat_models'', PStr ''ChatOpenAI''])]"

definition llm_kwargs :: dict where
  "llm_kwargs =
     [(''invocation_params'', PDict [(''temperature'', PFloat (7 / 10)), (''max_tokens'', PNone)])]"



text \<open>A handler built on a trace client of the user, and that handler after the start of
  a root chain \<open>run-a\<close>.\<close>

definition user_trace :: trace_handle where
  "user_trace =
     \<lparr>t_id = ''trace-1'', t_name = PStr ''mine'', t_metadata = None, t_version = None,
      t_session_id = None, t_user_id = None, t_input = PNone, t_output = PNone\<rparr>"

definition traced_handler :: handler where
  "traced_handler = blank_handler\<lparr>trace := Some user_trace\<rparr>"

definition traced_started :: handler where
  "traced_started =
     snd (on_chain_start chain_descriptor (PStr ''hi'') (UUID ''run-a'') None None None []
            traced_handler)"

text \<open>A descriptor from which no name can be taken: its \<^verbatim>\<open>id\<close> is empty.\<close>

definition nameless_descriptor :: dict where
  "nameless_descriptor = [(''id'', PList [])]"

definition failing_model_name :: "dict \<Rightarrow> dict \<Rightarrow> exn + string option" where
  "failing_model_name serialized kwargs = Inl (ValueError ''no model'')"

text \<open>A response with a text whose \<^verbatim>\<open>llm_output\<close> has no \<^verbatim>\<open>token_usage\<close>.\<close>

definition no_usage_response :: llm_result where
  "no_usage_response =
     \<lparr>generations = [[\<lparr>c_text = Some ''answer'', c_message = Some \<lparr>additional_kwargs = []\<rparr>\<rparr>]],
      llm_output = Some [(''model_name'', PStr ''gpt-4'')]\<rparr>"

section \<open>Auxiliary facts\<close>

lemmas client_defs = client_trace_def client_update_def client_child_def client_span_def
  client_generation_def client_end_def add_task_def

lemmas log_defs = log_debug_def log_warning_def log_exception_def

lemmas ctl_defs = raise_def return_def try_except_def

lemmas name_defs = get_langchain_run_name_def debug_run_name_def dict_has_def dict_get_def
  unknown_id_def

lemmas sample_defs = root_started_def on_chain_start_def on_chain_start_body_def
  generate_trace_and_parent_def generate_trace_and_parent_body_def keyed_handler_def
  blank_handler_def chain_descriptor_def name_defs client_defs log_defs ctl_defs
  join_tags_and_metadata_def opt_str_def in_runs_def Let_def

lemma map_of_dict_update:
  "distinct (map fst other) \<Longrightarrow> map_of (dict_update d other) = map_of d ++ map_of other"
  unfolding dict_update_def
proof (induction other arbitrary: d)
  case Nil
  show ?case by simp
next
  case (Cons p ps)
  obtain k v where p: "p = (k, v)" by (cases p)
  from Cons.prems have k: "k \<notin> dom (map_of ps)" and d: "distinct (map fst ps)"
    by (auto simp: p dom_map_of_conv_image_fst)
  have "map_of (fold (\<lambda>(k, v). AList.update k v) ps (AList.update k v d))
          = map_of (AList.update k v d) ++ map_of ps"
    by (rule Cons.IH [OF d])
  also have "\<dots> = (map_of d ++ map_of ps)(k \<mapsto> v)"
    using k by (simp add: update_conv' map_add_upd_left)
  finally show ?case
    by (simp add: p fun_eq_iff map_add_def)
qed

lemma fst_try_except: "fst (try_except r) = Returned"
  by (cases r) (simp add: try_except_def split: sum.splits)


lemma root_started_eq:
  "root_started =
     \<lparr>next_span_id = None,
      trace = Some \<lparr>t_id = ''run-a'', t_name = PStr ''LLMChain'', t_metadata = None,
                     t_version = None, t_session_id = None, t_user_id = None,
                     t_input = PStr ''hi'', t_output = PNone\<rparr>,
      root_span = None,
      langfuse = Some \<lparr>public_key = ''pk'', secret_key = ''sk'',
                        host = ''https://cloud.langfuse.com''\<rparr>,
      version = None, session_id = None, user_id = None, trace_name = None,
      runs = [UuidKey (UUID ''run-a'') \<mapsto>
                \<lparr>o_kind = SPAN, o_id = FreshId 0, o_trace_id = ''run-a'', o_parent_id = None,
                 o_name = PStr ''LLMChain'', o_input = PStr ''hi'', o_output = PNone,
                 o_metadata = None, o_version = None, o_level = DEFAULT,
                 o_status_message = None, o_model = None, o_model_parameters = [],
                 o_usage = PNone, o_closed = False\<rparr>],
      task_manager =
        [TraceCreate \<lparr>t_id = ''run-a'', t_name = PStr ''LLMChain'', t_metadata = None,
                       t_version = None, t_session_id = None, t_user_id = None,
                       t_input = PStr ''hi'', t_output = PNone\<rparr>,
         ObservationCreate
           \<lparr>o_kind = SPAN, o_id = FreshId 0, o_trace_id = ''run-a'', o_parent_id = None,
            o_name = PStr ''LLMChain'', o_input = PStr ''hi'', o_output = PNone,
            o_metadata = None, o_version = None, o_level = DEFAULT,
            o_status_message = None, o_model = None, o_model_parameters = [],
            o_usage = PNone, o_closed = False\<rparr>],
      logged = [LogDebug ''on chain start''], fresh = Suc 0\<rparr>"
  by (simp add: sample_defs)

lemma end_run_unregistered:
  "runs h (UuidKey run_id) = None \<Longrightarrow>
     try_except (end_run_body msg out run_id p h)
       = (Returned, h\<lparr>logged := logged h @ [LogDebug msg, LogException (Exception ''run not found'')]\<rparr>)"
  by (simp add: end_run_body_def ctl_defs log_defs Let_def)

lemma error_run_unregistered:
  "runs h (UuidKey run_id) = None \<Longrightarrow>
     try_except (error_run_body msg err run_id p h)
       = (Returned, h\<lparr>logged := logged h @ [LogDebug msg, LogException KeyError]\<rparr>)"
  by (simp add: error_run_body_def ctl_defs log_defs Let_def)

subsection \<open>What the client's operations leave unchanged\<close>

named_theorems frame

lemma client_child_frame [frame]:
  "next_span_id (snd (client_child kind par gid name inp md ver model params h)) = next_span_id h"
  "trace (snd (client_child kind par gid name inp md ver model params h)) = trace h"
  "root_span (snd (client_child kind par gid name inp md ver model params h)) = root_span h"
  "langfuse (snd (client_child kind par gid name inp md ver model params h)) = langfuse h"
  "version (snd (client_child kind par gid name inp md ver model params h)) = version h"
  "trace_name (snd (client_child kind par gid name inp md ver model params h)) = trace_name h"
  "runs (snd (client_child kind par gid name inp md ver model params h)) = runs h"
  "logged (snd (client_child kind par gid name inp md ver model params h)) = logged h"
  "task_manager (snd (client_child kind par gid name inp md ver model params h))
     = task_manager h @ [ObservationCreate (fst (client_child kind par gid name inp md ver model params h))]"
  by (simp_all add: client_child_def add_task_def Let_def split: option.splits)

lemma client_child_result [frame]:
  "o_kind (fst (client_child kind par gid name inp md ver model params h)) = kind"
  "o_parent_id (fst (client_child kind par gid name inp md ver model params h)) = parent_observation_id par"
  "o_trace_id (fst (client_child kind par gid name inp md ver model params h)) = parent_trace_id par"
  "o_model_parameters (fst (client_child kind par gid name inp md ver model params h)) = params"
  by (simp_all add: client_child_def Let_def)

lemma client_span_frame [frame]:
  "next_span_id (snd (client_span par gid name inp md ver h)) = next_span_id h"
  "trace (snd (client_span par gid name inp md ver h)) = trace h"
  "root_span (snd (client_span par gid name inp md ver h)) = root_span h"
  "langfuse (snd (client_span par gid name inp md ver h)) = langfuse h"
  "version (snd (client_span par gid name inp md ver h)) = version h"
  "trace_name (snd (client_span par gid name inp md ver h)) = trace_name h"
  "runs (snd (client_span par gid name inp md ver h)) = runs h"
  "logged (snd (client_span par gid name inp md ver h)) = logged h"
  "task_manager (snd (client_span par gid name inp md ver h))
     = task_manager h @ [ObservationCreate (fst (client_span par gid name inp md ver h))]"
  by (simp_all add: client_span_def client_child_frame)

lemma client_generation_frame [frame]:
  "next_span_id (snd (client_generation par name inp md model params ver h)) = next_span_id h"
  "trace (snd (client_generation par name inp md model params ver h)) = trace h"
  "root_span (snd (client_generation par name inp md model params ver h)) = root_span h"
  "langfuse (snd (client_generation par name inp md model params ver h)) = langfuse h"
  "version (snd (client_generation par name inp md model params ver h)) = version h"
  "trace_name (snd (client_generation par name inp md model params ver h)) = trace_name h"
  "runs (snd (client_generation par name inp md model params ver h)) = runs h"
  "logged (snd (client_generation par name inp md model params ver h)) = logged h"
  "task_manager (snd (client_generation par name inp md model params ver h))
     = task_manager h @ [ObservationCreate (fst (client_generation par name inp md model params ver h))]"
  by (simp_all add: client_generation_def client_child_frame)

lemma client_generation_result [frame]:
  "o_kind (fst (client_generation par name inp md model params ver h)) = GENERATION"
  "o_parent_id (fst (client_generation par name inp md model params ver h)) = parent_observation_id par"
  "o_trace_id (fst (client_generation par name inp md model params ver h)) = parent_trace_id par"
  "o_model_parameters (fst (client_generation par name inp md model params ver h)) = params"
  by (simp_all add: client_generation_def client_child_result)

lemma client_end_frame [frame]:
  "next_span_id (snd (client_end ob out level status usage ver h)) = next_span_id h"
  "trace (snd (client_end ob out level status usage ver h)) = trace h"
  "root_span (snd (client_end ob out level status usage ver h)) = root_span h"
  "langfuse (snd (client_end ob out level status usage ver h)) = langfuse h"
  "version (snd (client_end ob out level status usage ver h)) = version h"
  "trace_name (snd (client_end ob out level status usage ver h)) = trace_name h"
  "runs (snd (client_end ob out level status usage ver h)) = runs h"
  "logged (snd (client_end ob out level status usage ver h)) = logged h"
  "task_manager (snd (client_end ob out level status usage ver h))
     = task_manager h @ [ObservationUpdate (fst (client_end ob out level status usage ver h))]"
  by (simp_all add: client_end_def add_task_def Let_def)

lemma client_end_result [frame]:
  "o_output (fst (client_end ob (Some out) level status usage ver h)) = out"
  "o_level (fst (client_end ob out' (Some lv) status usage ver h)) = lv"
  "o_status_message (fst (client_end ob out' level (Some msg) usage ver h)) = Some msg"
  "o_closed (fst (client_end ob out' level status usage ver h))"
  "o_kind (fst (client_end ob out' level status usage ver h)) = o_kind ob"
  "o_id (fst (client_end ob out' level status usage ver h)) = o_id ob"
  by (simp_all add: client_end_def Let_def)

lemma client_trace_frame [frame]:
  "next_span_id (snd (client_trace tid name md ver sid uid inp h)) = next_span_id h"
  "trace (snd (client_trace tid name md ver sid uid inp h)) = trace h"
  "root_span (snd (client_trace tid name md ver sid uid inp h)) = root_span h"
  "langfuse (snd (client_trace tid name md ver sid uid inp h)) = langfuse h"
  "version (snd (client_trace tid name md ver sid uid inp h)) = version h"
  "trace_name (snd (client_trace tid name md ver sid uid inp h)) = trace_name h"
  "runs (snd (client_trace tid name md ver sid uid inp h)) = runs h"
  "logged (snd (client_trace tid name md ver sid uid inp h)) = logged h"
  "task_manager (snd (client_trace tid name md ver sid uid inp h))
     = task_manager h @ [TraceCreate (fst (client_trace tid name md ver sid uid inp h))]"
  "t_id (fst (client_trace tid name md ver sid uid inp h)) = tid"
  "t_output (fst (client_trace tid name md ver sid uid inp h)) = PNone"
  by (simp_all add: client_trace_def add_task_def Let_def)

lemma client_update_frame [frame]:
  "next_span_id (snd (client_update t out h)) = next_span_id h"
  "trace (snd (client_update t out h)) = trace h"
  "root_span (snd (client_update t out h)) = root_span h"
  "langfuse (snd (client_update t out h)) = langfuse h"
  "version (snd (client_update t out h)) = version h"
  "trace_name (snd (client_update t out h)) = trace_name h"
  "runs (snd (client_update t out h)) = runs h"
  "logged (snd (client_update t out h)) = logged h"
  "task_manager (snd (client_update t out h)) = task_manager h @ [TraceUpdate (t\<lparr>t_output := out\<rparr>)]"
  "fst (client_update t out h) = t\<lparr>t_output := out\<rparr>"
  by (simp_all add: client_update_def add_task_def Let_def)

lemma log_frame [frame]:
  "next_span_id (log_debug msg h) = next_span_id h"
  "trace (log_debug msg h) = trace h"
  "root_span (log_debug msg h) = root_span h"
  "langfuse (log_debug msg h) = langfuse h"
  "version (log_debug msg h) = version h"
  "trace_name (log_debug msg h) = trace_name h"
  "runs (log_debug msg h) = runs h"
  "task_manager (log_debug msg h) = task_manager h"
  "logged (log_debug msg h) = logged h @ [LogDebug msg]"
  "next_span_id (log_exception e h) = next_span_id h"
  "trace (log_exception e h) = trace h"
  "root_span (log_exception e h) = root_span h"
  "langfuse (log_exception e h) = langfuse h"
  "version (log_exception e h) = version h"
  "trace_name (log_exception e h) = trace_name h"
  "runs (log_exception e h) = runs h"
  "task_manager (log_exception e h) = task_manager h"
  "logged (log_exception e h) = logged h @ [LogException e]"
  by (simp_all add: log_defs)

lemma parse_frame [frame]:
  "next_span_id (snd (parse_model_and_log_errors ex s k h)) = next_span_id h"
  "runs (snd (parse_model_and_log_errors ex s k h)) = runs h"
  "trace (snd (parse_model_and_log_errors ex s k h)) = trace h"
  "root_span (snd (parse_model_and_log_errors ex s k h)) = root_span h"
  "version (snd (parse_model_and_log_errors ex s k h)) = version h"
  "langfuse (snd (parse_model_and_log_errors ex s k h)) = langfuse h"
  by (simp_all add: parse_model_and_log_errors_def report_error_def add_task_def log_defs
      split: sum.splits)

lemma try_except_cases:
  "try_except (raise e h) = (Returned, log_exception e h)"
  "try_except (return h) = (Returned, h)"
  by (simp_all add: ctl_defs)

lemma run_name_no_override:
  "\<not> dict_has kw ''name'' \<Longrightarrow> get_langchain_run_name s kw = get_langchain_run_name s []"
  by (simp add: get_langchain_run_name_def dict_has_def)

lemma map_of_filter_keys:
  "map_of (filter (\<lambda>(key, value). value \<noteq> PNone) (map (\<lambda>key. (key, f key)) ks)) k
     = (if k \<in> set ks \<and> f k \<noteq> PNone then Some (f k) else None)"
  by (induction ks) auto

lemma map_of_model_parameters:
  "map_of (model_parameters ip) k
     = (if k \<in> set parameter_keys \<and> map_of ip k \<noteq> None \<and> map_of ip k \<noteq> Some PNone
        then map_of ip k else None)"
  by (auto simp: model_parameters_def map_of_filter_keys dict_get_def split: option.splits)

text \<open>The four ways in which the trace bootstrap ends.\<close>

lemma generate_cases:
  "generate_trace_and_parent serialized inp run_id p tags md kw h =
    (case get_langchain_run_name serialized kw of
       Inl e \<Rightarrow> log_exception e h
     | Inr class_name \<Rightarrow>
        (if langfuse h = None \<or> (trace h \<noteq> None \<and> p \<noteq> None) then h
         else
           let h1 = (if trace h \<noteq> None then h\<lparr>trace := None, runs := Map.empty\<rparr> else h);
               r = client_trace (str_uuid run_id)
                     (if trace_name h \<noteq> None then PStr (the (trace_name h)) else class_name)
                     (join_tags_and_metadata tags md) (version h) (session_id h) (user_id h) inp h1;
               h3 = (snd r)\<lparr>trace := Some (fst r)\<rparr>
           in if in_runs p h3
              then (let s = client_span (OfTrace (fst r)) (next_span_id h) class_name inp
                              (join_tags_and_metadata tags md) (version h) h3
                    in (snd s)\<lparr>runs := (runs (snd s))(UuidKey run_id \<mapsto> fst s)\<rparr>)
              else h3))"
  by (auto simp: generate_trace_and_parent_def generate_trace_and_parent_body_def ctl_defs
      Let_def split_beta in_runs_def frame split: sum.splits)


lemma generate_frame [frame]:
  "root_span (generate_trace_and_parent serialized inp run_id p tags md kw h) = root_span h"
  "langfuse (generate_trace_and_parent serialized inp run_id p tags md kw h) = langfuse h"
  "version (generate_trace_and_parent serialized inp run_id p tags md kw h) = version h"
  "next_span_id (generate_trace_and_parent serialized inp run_id p tags md kw h) = next_span_id h"
  by (simp_all add: generate_cases Let_def frame split: sum.splits)

lemma generate_stateful:
  assumes "langfuse h = None"
  shows "runs (generate_trace_and_parent serialized inp run_id p tags md kw h) = runs h"
    and "trace (generate_trace_and_parent serialized inp run_id p tags md kw h) = trace h"
    and "task_manager (generate_trace_and_parent serialized inp run_id p tags md kw h) = task_manager h"
  using assms by (simp_all add: generate_cases frame split: sum.splits)

lemma generate_unknown_parent:
  assumes "runs h (UuidKey q) = None"
  shows "runs (generate_trace_and_parent serialized inp run_id (Some q) tags md kw h) = runs h"
  using assms by (simp add: generate_cases Let_def in_runs_def frame split: sum.splits)

lemma generate_root:
  assumes "langfuse h \<noteq> None" and "get_langchain_run_name serialized kw = Inr nm"
  shows "runs (generate_trace_and_parent serialized inp run_id None tags md kw h)
           = (if trace h \<noteq> None then Map.empty else runs h)"
    and "\<exists>t. trace (generate_trace_and_parent serialized inp run_id None tags md kw h) = Some t
             \<and> t_id t = str_uuid run_id \<and> t_output t = PNone
             \<and> task_manager (generate_trace_and_parent serialized inp run_id None tags md kw h)
                 = task_manager h @ [TraceCreate t]"
  using assms by (auto simp: generate_cases Let_def in_runs_def frame)

lemma generate_trace_available:
  assumes "trace h \<noteq> None \<or> (langfuse h \<noteq> None \<and> get_langchain_run_name serialized kw = Inr nm)"
  shows "trace (generate_trace_and_parent serialized inp run_id p tags md kw h) \<noteq> None"
  using assms
  by (auto simp: generate_cases Let_def frame split: sum.splits)

lemma llm_action_registers:
  assumes ip: "invocation_params kwargs = Inr ip"
      and name: "get_langchain_run_name serialized kwargs = Inr name"
      and tr: "trace h \<noteq> None \<or> (langfuse h \<noteq> None \<and> get_langchain_run_name serialized [] = Inr nm)"
  shows "\<exists>g. runs (on_llm_action ex serialized run_id prompts p tags metadata kwargs h) (UuidKey run_id) = Some g
           \<and> o_kind g = GENERATION \<and> o_model_parameters g = model_parameters ip"
proof -
  let ?kw = "[(''version'', opt_str (version h)), (''kwargs'', PDict kwargs)]"
  let ?h1 = "generate_trace_and_parent serialized prompts run_id p tags metadata ?kw h"
  have "get_langchain_run_name serialized ?kw = get_langchain_run_name serialized []"
    by (rule run_name_no_override) (simp add: dict_has_def)
  with tr have "trace ?h1 \<noteq> None"
    by (intro generate_trace_available) auto
  then obtain t where t: "trace ?h1 = Some t" by blast
  show ?thesis
    using ip name t
    by (simp add: on_llm_action_def on_llm_action_body_def try_except_cases Let_def
          split_beta frame)
qed

lemma update_trace_frame [frame]:
  "runs (update_trace run_id p out h) = runs h"
  "root_span (update_trace run_id p out h) = root_span h"
  "langfuse (update_trace run_id p out h) = langfuse h"
  "version (update_trace run_id p out h) = version h"
  "next_span_id (update_trace run_id p out h) = next_span_id h"
  "logged (update_trace run_id p out h) = logged h"
  by (simp_all add: update_trace_def split_beta frame Let_def)


lemma update_trace_queue:
  "task_manager (update_trace run_id p out h)
     = (if p = None \<and> trace h \<noteq> None \<and> t_id (the (trace h)) = str_uuid run_id
        then task_manager h @ [TraceUpdate ((the (trace h))\<lparr>t_output := out\<rparr>)] else task_manager h)"
  by (simp add: update_trace_def split_beta frame Let_def)

lemma tool_started_runs:
  "runs tool_started (UuidKey (UUID ''run-b'')) \<noteq> None"
  "runs tool_started (UuidKey (UUID ''run-a'')) \<noteq> None"
  by (simp_all add: tool_started_def root_started_eq on_tool_start_def on_tool_start_body_def
      tool_descriptor_def name_defs try_except_cases join_tags_and_metadata_def
      in_runs_def dict_update_def Let_def split_beta frame)


lemma error_run_registered:
  assumes "runs h (UuidKey run_id) = Some run"
  shows "snd (try_except (error_run_body msg err run_id p h))
           = update_trace run_id p (PError err)
               ((snd (client_end run None (Some ERROR) (Some (PStr (str_error err))) None (version h)
                        (log_debug msg h)))
                  \<lparr>runs := (runs h)(UuidKey run_id \<mapsto>
                      fst (client_end run None (Some ERROR) (Some (PStr (str_error err))) None
                             (version h) (log_debug msg h)))\<rparr>)"
  using assms by (simp add: error_run_body_def try_except_cases Let_def split_beta frame)

lemma tool_error_registered:
  assumes "runs h (UuidKey run_id) = Some run"
  shows "snd (on_tool_error err run_id p h)
           = update_trace run_id p (PError err)
               ((snd (client_end run None (Some ERROR) (Some (PError err)) None (version h)
                        (log_debug ''on tool error'' h)))
                  \<lparr>runs := (runs h)(UuidKey run_id \<mapsto>
                      fst (client_end run None (Some ERROR) (Some (PError err)) None
                             (version h) (log_debug ''on tool error'' h)))\<rparr>)"
  using assms
  by (simp add: on_tool_error_def on_tool_error_body_def try_except_cases Let_def split_beta frame)

lemma llm_start_snd:
  "snd (on_llm_start ex serialized prompts run_id p tags metadata kwargs h)
     = on_llm_action ex serialized run_id prompts p tags metadata kwargs (log_debug ''on llm start'' h)"
  by (simp add: on_llm_start_def try_except_cases)

lemma chat_model_start_snd:
  "\<not> dict_has kwargs ''prompts'' \<Longrightarrow>
   snd (on_chat_model_start ex serialized messages run_id p tags metadata kwargs h)
     = on_llm_action ex serialized run_id messages p tags metadata kwargs
         (log_debug ''on chat model start'' h)"
  by (simp add: on_chat_model_start_def on_chat_model_start_body_def try_except_cases Let_def)

lemma map_fst_filter_keys:
  "map fst (filter (\<lambda>(key, value). value \<noteq> PNone) (map (\<lambda>key. (key, f key)) ks))
     = filter (\<lambda>key. f key \<noteq> PNone) ks"
  by (induction ks) auto

lemma distinct_model_parameters: "distinct (map fst (model_parameters ip))"
  by (simp add: model_parameters_def map_fst_filter_keys parameter_keys_def)


lemma root_started_run_a:
  "runs root_started (UuidKey (UUID ''run-a''))
     = Some \<lparr>o_kind = SPAN, o_id = FreshId 0, o_trace_id = ''run-a'', o_parent_id = None,
             o_name = PStr ''LLMChain'', o_input = PStr ''hi'', o_output = PNone,
             o_metadata = None, o_version = None, o_level = DEFAULT,
             o_status_message = None, o_model = None, o_model_parameters = [],
             o_usage = PNone, o_closed = False\<rparr>"
  by (simp add: root_started_eq)

lemma run_name_resolves:
  assumes "get_langchain_run_name serialized [] = Inr nm"
  shows "\<exists>n. get_langchain_run_name serialized kw = Inr n"
  using assms by (simp add: get_langchain_run_name_def dict_has_def)

lemma traces_created_append [simp]:
  "traces_created (h\<lparr>task_manager := xs @ ys\<rparr>) = length (filter is_trace_create xs) + length (filter is_trace_create ys)"
  by (simp add: traces_created_def)

lemma chain_start_root:
  assumes lf: "langfuse h \<noteq> None"
      and dbg: "debug_run_name serialized = Inr shown"
      and nm: "get_langchain_run_name serialized [] = Inr nm"
      and ver: "\<not> dict_has kwargs ''version''"
  shows "\<exists>t sp. trace (snd (on_chain_start serialized inputs run_id None tags metadata kwargs h)) = Some t
           \<and> t_id t = str_uuid run_id \<and> t_output t = PNone
           \<and> runs (snd (on_chain_start serialized inputs run_id None tags metadata kwargs h))
               = (if trace h \<noteq> None then Map.empty else runs h)(UuidKey run_id \<mapsto> sp)
           \<and> task_manager (snd (on_chain_start serialized inputs run_id None tags metadata kwargs h))
               = task_manager h @ [TraceCreate t, ObservationCreate sp]"
proof -
  let ?h0 = "log_debug ''on chain start'' h"
  let ?kw = "(''version'', opt_str (version ?h0)) # kwargs"
  let ?h1 = "generate_trace_and_parent serialized inputs run_id None tags metadata ?kw ?h0"
  obtain n1 where n1: "get_langchain_run_name serialized ?kw = Inr n1"
    using run_name_resolves [OF nm] by blast
  obtain n2 where n2: "get_langchain_run_name serialized kwargs = Inr n2"
    using run_name_resolves [OF nm] by blast
  have lf0: "langfuse ?h0 \<noteq> None" using lf by (simp add: frame)
  from generate_root [OF lf0 n1, of inputs run_id tags metadata]
  obtain t where r: "runs ?h1 = (if trace h \<noteq> None then Map.empty else runs h)"
    and t: "trace ?h1 = Some t" "t_id t = str_uuid run_id" "t_output t = PNone"
    and q: "task_manager ?h1 = task_manager h @ [TraceCreate t]"
    by (auto simp: frame)
  show ?thesis
    using dbg ver n2 r t q
    by (simp add: on_chain_start_def on_chain_start_body_def try_except_cases Let_def
        split_beta frame)
qed




lemma tool_start_root_rejected:
  "on_tool_start serialized input_str run_id None tags metadata kwargs h
     = (Returned, h\<lparr>logged := logged h @ [LogDebug ''on tool start'',
                                          LogException (Exception ''parent run not found'')]\<rparr>)"
  by (simp add: on_tool_start_def on_tool_start_body_def ctl_defs log_defs Let_def)

lemma retriever_start_root_rejected:
  "on_retriever_start serialized query run_id None tags metadata kwargs h
     = (Returned, h\<lparr>logged := logged h @ [LogDebug ''on retriever start'',
                                          LogException (Exception ''parent run not found'')]\<rparr>)"
  by (simp add: on_retriever_start_def on_retriever_start_body_def ctl_defs log_defs Let_def)


lemma chain_descriptor_names:
  "debug_run_name chain_descriptor = Inr (PStr ''LLMChain'')"
  "get_langchain_run_name chain_descriptor [] = Inr (PStr ''LLMChain'')"
  by (simp_all add: name_defs chain_descriptor_def)

lemma failure_logged_log_exception [simp]: "failure_logged (log_exception e h)"
  by (simp add: failure_logged_def log_defs)

lemma llm_action_runs_other:
  assumes "k \<noteq> UuidKey run_id"
  shows "runs (on_llm_action ex serialized run_id prompts p tags metadata kwargs h) k
           = runs (generate_trace_and_parent serialized prompts run_id p tags metadata
                     [(''version'', opt_str (version h)), (''kwargs'', PDict kwargs)] h) k"
  using assms
  by (simp add: on_llm_action_def on_llm_action_body_def try_except_cases Let_def split_beta
      frame split: sum.splits option.splits)

lemma llm_action_trace:
  "trace (on_llm_action ex serialized run_id prompts p tags metadata kwargs h)
     = trace (generate_trace_and_parent serialized prompts run_id p tags metadata
                [(''version'', opt_str (version h)), (''kwargs'', PDict kwargs)] h)"
  by (simp add: on_llm_action_def on_llm_action_body_def try_except_cases Let_def split_beta
      frame split: sum.splits option.splits)

lemma llm_action_new_root:
  assumes "langfuse h \<noteq> None" and "trace h \<noteq> None"
      and "get_langchain_run_name serialized [] = Inr nm"
  shows "(\<forall>k. k \<noteq> UuidKey run_id \<longrightarrow>
            runs (on_llm_action ex serialized run_id prompts None tags metadata kwargs h) k = None)
       \<and> (\<exists>t. trace (on_llm_action ex serialized run_id prompts None tags metadata kwargs h) = Some t
              \<and> t_id t = str_uuid run_id)"
proof -
  let ?kw = "[(''version'', opt_str (version h)), (''kwargs'', PDict kwargs)]"
  have n: "get_langchain_run_name serialized ?kw = Inr nm"
    using assms(3) run_name_no_override [of ?kw serialized] by (simp add: dict_has_def)
  from generate_root [OF assms(1) n, of prompts run_id tags metadata] assms(2)
  show ?thesis
    by (auto simp: llm_action_runs_other llm_action_trace)
qed

lemma llm_action_stateful:
  assumes "langfuse h = None"
  shows "(\<forall>k. k \<noteq> UuidKey run_id \<longrightarrow>
            runs (on_llm_action ex serialized run_id prompts p tags metadata kwargs h) k = runs h k)
       \<and> trace (on_llm_action ex serialized run_id prompts p tags metadata kwargs h) = trace h"
  using assms by (simp add: llm_action_runs_other llm_action_trace generate_stateful)

lemma chain_start_stateful:
  assumes "langfuse h = None"
  shows "(\<forall>k. k \<noteq> UuidKey run_id \<longrightarrow>
            runs (snd (on_chain_start serialized inputs run_id p tags metadata kwargs h)) k = runs h k)
       \<and> trace (snd (on_chain_start serialized inputs run_id p tags metadata kwargs h)) = trace h"
proof -
  have lf: "langfuse (log_debug ''on chain start'' h) = None" using assms by (simp add: frame)
  show ?thesis
    by (simp add: on_chain_start_def on_chain_start_body_def try_except_cases Let_def split_beta
      frame generate_stateful [OF lf] split: sum.splits option.splits)
qed

lemma tool_start_other:
  "(\<forall>k. k \<noteq> UuidKey run_id \<longrightarrow>
      runs (snd (on_tool_start serialized input_str run_id p tags metadata kwargs h)) k = runs h k)
   \<and> trace (snd (on_tool_start serialized input_str run_id p tags metadata kwargs h)) = trace h"
  by (simp add: on_tool_start_def on_tool_start_body_def try_except_cases Let_def split_beta
      frame split: sum.splits option.splits)

lemma retriever_start_other:
  "(\<forall>k. k \<noteq> UuidKey run_id \<longrightarrow>
      runs (snd (on_retriever_start serialized query run_id p tags metadata kwargs h)) k = runs h k)
   \<and> trace (snd (on_retriever_start serialized query run_id p tags metadata kwargs h)) = trace h"
  by (simp add: on_retriever_start_def on_retriever_start_body_def try_except_cases Let_def
      split_beta frame split: sum.splits option.splits)

lemma chain_start_unknown_parent:
  assumes "runs h (UuidKey q) = None"
  shows "runs (snd (on_chain_start serialized inputs run_id (Some q) tags metadata kwargs h)) = runs h
       \<and> failure_logged (snd (on_chain_start serialized inputs run_id (Some q) tags metadata kwargs h))"
proof -
  have r: "runs (log_debug ''on chain start'' h) (UuidKey q) = None"
    using assms by (simp add: frame)
  show ?thesis
    using assms
    by (simp add: on_chain_start_def on_chain_start_body_def try_except_cases Let_def split_beta
      frame generate_unknown_parent [OF r] split: sum.splits option.splits)
qed

lemma tool_start_unknown_parent:
  assumes "runs h (UuidKey q) = None"
  shows "on_tool_start serialized input_str run_id (Some q) tags metadata kwargs h
     = (Returned, h\<lparr>logged := logged h @ [LogDebug ''on tool start'',
                                          LogException (Exception ''parent run not found'')]\<rparr>)"
  using assms
  by (simp add: on_tool_start_def on_tool_start_body_def ctl_defs log_defs Let_def in_runs_def)

lemma retriever_start_unknown_parent:
  assumes "runs h (UuidKey q) = None"
  shows "on_retriever_start serialized query run_id (Some q) tags metadata kwargs h
     = (Returned, h\<lparr>logged := logged h @ [LogDebug ''on retriever start'',
                                          LogException (Exception ''parent run not found'')]\<rparr>)"
  using assms
  by (simp add: on_retriever_start_def on_retriever_start_body_def ctl_defs log_defs Let_def
      in_runs_def)

lemma llm_action_unknown_parent:
  assumes q: "runs h (UuidKey q) = None"
      and ip: "invocation_params kwargs = Inr ip"
      and name: "get_langchain_run_name serialized kwargs = Inr name"
      and tr: "trace h \<noteq> None \<or> (langfuse h \<noteq> None \<and> get_langchain_run_name serialized [] = Inr nm)"
  shows "\<exists>g t. runs (on_llm_action ex serialized run_id prompts (Some q) tags metadata kwargs h)
                 (UuidKey run_id) = Some g
           \<and> trace (on_llm_action ex serialized run_id prompts (Some q) tags metadata kwargs h) = Some t
           \<and> o_kind g = GENERATION \<and> o_parent_id g = None \<and> o_trace_id g = t_id t"
proof -
  let ?kw = "[(''version'', opt_str (version h)), (''kwargs'', PDict kwargs)]"
  let ?h1 = "generate_trace_and_parent serialized prompts run_id (Some q) tags metadata ?kw h"
  have "get_langchain_run_name serialized ?kw = get_langchain_run_name serialized []"
    by (rule run_name_no_override) (simp add: dict_has_def)
  with tr have "trace ?h1 \<noteq> None"
    by (intro generate_trace_available) auto
  then obtain t where t: "trace ?h1 = Some t" by blast
  have r: "runs ?h1 = runs h" by (rule generate_unknown_parent [OF q])
  show ?thesis
    using ip name t q
    by (simp add: on_llm_action_def on_llm_action_body_def try_except_cases Let_def
          split_beta frame r in_runs_def)
qed

lemma init_traced:
  "init Map.empty None None None (Some (TraceClient user_trace)) None None None None
     = Inr traced_handler"
  by (simp add: init_def traced_handler_def truthy_def blank_handler_def)

lemma traced_started_fields:
  "langfuse traced_started = None"
  "trace traced_started = Some user_trace"
  "runs traced_started (UuidKey (UUID ''run-a'')) \<noteq> None"
  by (simp_all add: traced_started_def traced_handler_def sample_defs)

lemma root_started_fields:
  "langfuse root_started \<noteq> None"
  "trace root_started \<noteq> None"
  "runs root_started (UuidKey (UUID ''run-a'')) \<noteq> None"
  "runs root_started (UuidKey (UUID ''run-x'')) = None"
  "task_manager root_started \<noteq> []"
  by (simp_all add: root_started_eq)

lemma chat_model_start_cases:
  "snd (on_chat_model_start ex serialized messages run_id p tags metadata kwargs h)
     = (if dict_has kwargs ''prompts''
        then log_exception TypeError (log_debug ''on chat model start'' h)
        else on_llm_action ex serialized run_id messages p tags metadata kwargs
               (log_debug ''on chat model start'' h))"
  by (simp add: on_chat_model_start_def on_chat_model_start_body_def try_except_cases Let_def)

lemma no_op_log [simp]:
  "no_op h (Returned, h\<lparr>logged := l\<rparr>)"
  by (simp add: no_op_def)

lemma llm_names:
  "invocation_params llm_kwargs = Inr [(''temperature'', PFloat (7 / 10)), (''max_tokens'', PNone)]"
  "get_langchain_run_name llm_descriptor llm_kwargs = Inr (PStr ''ChatOpenAI'')"
  "get_langchain_run_name llm_descriptor [] = Inr (PStr ''ChatOpenAI'')"
  "dict_has llm_kwargs ''prompts'' = False"
  by (simp_all add: invocation_params_def name_defs llm_descriptor_def llm_kwargs_def)

lemma parse_reports:
  "ex serialized kwargs = Inl e \<Longrightarrow>
     task_manager (snd (parse_model_and_log_errors ex serialized kwargs h))
       = task_manager h @ [SdkLog ''unable to parse model name'' kwargs serialized (Some e)]"
  "ex serialized kwargs = Inr None \<Longrightarrow>
     task_manager (snd (parse_model_and_log_errors ex serialized kwargs h))
       = task_manager h @ [SdkLog ''unable to parse model name'' kwargs serialized None]"
  by (simp_all add: parse_model_and_log_errors_def report_error_def add_task_def log_defs
      truthy_def)

lemma llm_action_queue:
  "\<exists>evs. task_manager (on_llm_action ex serialized run_id prompts p tags metadata kwargs h)
       = task_manager (snd (parse_model_and_log_errors ex serialized kwargs
           (generate_trace_and_parent serialized prompts run_id p tags metadata
              [(''version'', opt_str (version h)), (''kwargs'', PDict kwargs)] h))) @ evs"
  by (simp add: on_llm_action_def on_llm_action_body_def try_except_cases Let_def split_beta
      frame split: sum.splits option.splits)

lemma llm_action_reports:
  "ex serialized kwargs = Inl e \<Longrightarrow>
     SdkLog ''unable to parse model name'' kwargs serialized (Some e)
       \<in> set (task_manager (on_llm_action ex serialized run_id prompts p tags metadata kwargs h))"
  "ex serialized kwargs = Inr None \<Longrightarrow>
     SdkLog ''unable to parse model name'' kwargs serialized None
       \<in> set (task_manager (on_llm_action ex serialized run_id prompts p tags metadata kwargs h))"
  using llm_action_queue [of ex serialized run_id prompts p tags metadata kwargs h]
  by (auto simp: parse_reports)

subsection \<open>The log only grows\<close>

lemma log_continues_refl [simp]: "log_continues h h"
  by (simp add: log_continues_def)

lemma log_continues_step:
  "log_continues h h' \<Longrightarrow> logged h'' = logged h' @ es \<Longrightarrow> log_continues h h''"
  by (auto simp: log_continues_def)

lemma log_continues_same:
  "logged h'' = logged h' \<Longrightarrow> log_continues h h'' = log_continues h h'"
  by (simp add: log_continues_def)

lemma logs_failure_log_exception [simp]:
  "logs_failure h (log_exception e h') = log_continues h h'"
  by (auto simp: logs_failure_def log_continues_def log_defs)

lemma log_continues_log [simp]:
  "log_continues h h' \<Longrightarrow> log_continues h (log_debug msg h')"
  "log_continues h h' \<Longrightarrow> log_continues h (log_exception e h')"
  "log_continues h h' \<Longrightarrow> log_continues h (log_warning msg h')"
  by (auto simp: log_continues_def log_defs)

lemma generate_logged:
  "\<exists>es. logged (generate_trace_and_parent serialized inp run_id p tags md kw h) = logged h @ es"
  by (simp add: generate_cases Let_def frame split: sum.splits)

lemma log_continues_generate [simp]:
  "log_continues h h' \<Longrightarrow>
     log_continues h (generate_trace_and_parent serialized inp run_id p tags md kw h')"
  using generate_logged [of serialized inp run_id p tags md kw h']
  by (auto simp: log_continues_def)

lemma parse_logged:
  "\<exists>es. logged (snd (parse_model_and_log_errors ex s k h)) = logged h @ es"
  by (simp add: parse_model_and_log_errors_def report_error_def add_task_def log_defs
      split: sum.splits)

lemma log_continues_parse [simp]:
  "log_continues h h' \<Longrightarrow> log_continues h (snd (parse_model_and_log_errors ex s k h'))"
  using parse_logged [of ex s k h'] by (auto simp: log_continues_def)

lemma model_name_failure_logged:
  "ex s k = Inl e \<Longrightarrow> LogException e \<in> set (logged (snd (parse_model_and_log_errors ex s k h)))"
  by (simp add: parse_model_and_log_errors_def report_error_def add_task_def log_defs)

subsection \<open>The diagnostic events of the queue\<close>

lemma sdk_logs_update [simp]:
  "sdk_logs (h\<lparr>runs := r\<rparr>) = sdk_logs h"
  "sdk_logs (h\<lparr>trace := t\<rparr>) = sdk_logs h"
  "sdk_logs (h\<lparr>next_span_id := n\<rparr>) = sdk_logs h"
  "sdk_logs (h\<lparr>logged := l\<rparr>) = sdk_logs h"
  "sdk_logs (log_debug msg h) = sdk_logs h"
  "sdk_logs (log_exception e h) = sdk_logs h"
  by (simp_all add: sdk_logs_def log_defs)

lemma sdk_logs_client [simp]:
  "sdk_logs (snd (client_span par gid name inp md ver h)) = sdk_logs h"
  "sdk_logs (snd (client_generation par name inp md model params ver h)) = sdk_logs h"
  "sdk_logs (snd (client_end ob out level status usage ver h)) = sdk_logs h"
  "sdk_logs (snd (client_trace tid name md ver sid uid inp h)) = sdk_logs h"
  "sdk_logs (snd (client_update t outv h)) = sdk_logs h"
  by (simp_all add: sdk_logs_def frame)

lemma sdk_logs_update_trace [simp]:
  "sdk_logs (update_trace run_id p out h) = sdk_logs h"
  by (simp add: sdk_logs_def update_trace_queue)

lemma sdk_logs_generate [simp]:
  "sdk_logs (generate_trace_and_parent serialized inp run_id p tags md kw h) = sdk_logs h"
  by (simp add: generate_cases Let_def split: sum.splits)

lemma sdk_logs_parse:
  "sdk_logs (snd (parse_model_and_log_errors ex s k h)) = sdk_logs h @ model_name_report ex s k"
  by (simp add: parse_model_and_log_errors_def report_error_def add_task_def log_defs
      sdk_logs_def model_name_report_def truthy_def split: sum.splits option.splits)

lemma sdk_logs_end_run:
  "sdk_logs (snd (try_except (end_run_body msg out run_id p h))) = sdk_logs h"
  by (simp add: end_run_body_def try_except_cases Let_def split_beta)

lemma sdk_logs_error_run:
  "sdk_logs (snd (try_except (error_run_body msg err run_id p h))) = sdk_logs h"
  by (simp add: error_run_body_def try_except_cases Let_def split_beta split: option.splits)

lemma sdk_logs_chain_start:
  "sdk_logs (snd (on_chain_start serialized inputs run_id p tags metadata kwargs h)) = sdk_logs h"
  by (simp add: on_chain_start_def on_chain_start_body_def try_except_cases Let_def split_beta
      split: sum.splits option.splits)

lemma sdk_logs_tool_start:
  "sdk_logs (snd (on_tool_start serialized input_str run_id p tags metadata kwargs h)) = sdk_logs h"
  by (simp add: on_tool_start_def on_tool_start_body_def try_except_cases Let_def split_beta
      split: sum.splits option.splits)

lemma sdk_logs_retriever_start:
  "sdk_logs (snd (on_retriever_start serialized q run_id p tags metadata kwargs h)) = sdk_logs h"
  by (simp add: on_retriever_start_def on_retriever_start_body_def try_except_cases Let_def
      split_beta split: sum.splits option.splits)

lemma sdk_logs_tool_error:
  "sdk_logs (snd (on_tool_error err run_id p h)) = sdk_logs h"
  by (simp add: on_tool_error_def on_tool_error_body_def try_except_cases Let_def split_beta)

lemma sdk_logs_retriever_error:
  "sdk_logs (snd (on_retriever_error err run_id p h)) = sdk_logs h"
  by (simp add: on_retriever_error_def on_retriever_error_body_def try_except_cases Let_def
      split_beta)

lemma sdk_logs_agent_action:
  "sdk_logs (snd (on_agent_action action run_id p h)) = sdk_logs h"
  by (simp add: on_agent_action_def on_agent_action_body_def try_except_cases Let_def split_beta)

lemma sdk_logs_llm_end:
  "sdk_logs (snd (on_llm_end response run_id p h)) = sdk_logs h"
  by (simp add: on_llm_end_def on_llm_end_body_def try_except_cases Let_def split_beta
      split: sum.splits)

lemma sdk_logs_llm_action:
  "sdk_logs (on_llm_action ex serialized run_id prompts p tags metadata kwargs h)
     = sdk_logs h @ model_name_report ex serialized kwargs"
  by (simp add: on_llm_action_def on_llm_action_body_def try_except_cases Let_def split_beta
      sdk_logs_parse split: sum.splits option.splits)

subsection \<open>Failures are logged\<close>

lemma end_run_unregistered_logs:
  "runs h (UuidKey run_id) = None \<Longrightarrow>
     logs_failure h (snd (try_except (end_run_body msg outv run_id p h)))"
  by (simp add: end_run_body_def try_except_cases Let_def frame)

lemma error_run_unregistered_logs:
  "runs h (UuidKey run_id) = None \<Longrightarrow>
     logs_failure h (snd (try_except (error_run_body msg err run_id p h)))"
  by (simp add: error_run_body_def try_except_cases Let_def frame)

lemma other_unregistered_logs:
  assumes "runs h (UuidKey run_id) = None"
  shows "logs_failure h (snd (on_tool_error err run_id p h))"
    and "logs_failure h (snd (on_retriever_error err run_id p h))"
    and "logs_failure h (snd (on_agent_action action run_id p h))"
    and "logs_failure h (snd (on_llm_end response run_id p h))"
  using assms
  by (simp_all add: on_tool_error_def on_tool_error_body_def on_retriever_error_def
      on_retriever_error_body_def on_agent_action_def on_agent_action_body_def
      on_llm_end_def on_llm_end_body_def try_except_cases Let_def frame)

lemma start_without_parent_logs:
  assumes "p = None \<or> runs h (UuidKey (the p)) = None"
  shows "logs_failure h (snd (on_tool_start serialized input_str run_id p tags metadata kwargs h))"
    and "logs_failure h (snd (on_retriever_start serialized input_str run_id p tags metadata kwargs h))"
  using assms
  by (auto simp: on_tool_start_def on_tool_start_body_def on_retriever_start_def
      on_retriever_start_body_def try_except_cases Let_def frame in_runs_def
      split: option.splits)

lemma chain_start_unknown_parent_logs:
  assumes "p \<noteq> None" and "runs h (UuidKey (the p)) = None"
  shows "logs_failure h (snd (on_chain_start serialized inputs run_id p tags metadata kwargs h))"
proof -
  obtain q where p: "p = Some q" using assms(1) by blast
  have r: "runs (log_debug ''on chain start'' h) (UuidKey q) = None"
    using assms(2) p by (simp add: frame)
  show ?thesis
    using assms(2)
    by (simp add: p on_chain_start_def on_chain_start_body_def try_except_cases Let_def split_beta
      frame generate_unknown_parent [OF r] split: sum.splits option.splits)
qed

lemma name_failure_logs:
  assumes "get_langchain_run_name serialized kwargs = Inl e"
  shows "logs_failure h (snd (on_chain_start serialized inputs run_id p tags metadata kwargs h))"
    and "logs_failure h (snd (on_tool_start serialized input_str run_id p tags metadata kwargs h))"
    and "logs_failure h (snd (on_retriever_start serialized input_str run_id p tags metadata kwargs h))"
    and "logs_failure h (on_llm_action ex serialized run_id inputs p tags metadata kwargs h)"
  using assms
  by (simp_all add: on_chain_start_def on_chain_start_body_def on_tool_start_def
      on_tool_start_body_def on_retriever_start_def on_retriever_start_body_def
      on_llm_action_def on_llm_action_body_def try_except_cases Let_def split_beta frame
      split: sum.splits option.splits)

lemma logs_failure_after_debug:
  "logs_failure (log_debug msg h) h' \<Longrightarrow> logs_failure h h'"
  by (auto simp: logs_failure_def log_defs)

lemma response_failure_logs:
  assumes "last_candidate response = Inl e \<or> token_usage response = Inl e
           \<or> (last_candidate response = Inr c \<and> extract_response c = Inl e)"
  shows "logs_failure h (snd (on_llm_end response run_id p h))"
  using assms
  by (auto simp: on_llm_end_def on_llm_end_body_def try_except_cases Let_def split_beta frame
      split: sum.splits)

lemma llm_action_logged:
  "\<exists>es. logged (on_llm_action ex serialized run_id prompts p tags metadata kwargs h)
       = logged (snd (parse_model_and_log_errors ex serialized kwargs
           (generate_trace_and_parent serialized prompts run_id p tags metadata
              [(''version'', opt_str (version h)), (''kwargs'', PDict kwargs)] h))) @ es"
  by (simp add: on_llm_action_def on_llm_action_body_def try_except_cases Let_def split_beta
      frame split: sum.splits option.splits)

lemma llm_action_logs_model_name_failure:
  assumes "ex serialized kwargs = Inl e"
  shows "LogException e
           \<in> set (logged (on_llm_action ex serialized run_id prompts p tags metadata kwargs h))"
  using llm_action_logged [of ex serialized run_id prompts p tags metadata kwargs h]
    model_name_failure_logged [of ex serialized kwargs e] assms
  by auto

lemma nameless_names:
  "get_langchain_run_name nameless_descriptor llm_kwargs = Inl IndexError"
  "debug_run_name nameless_descriptor = Inl IndexError"
  by (simp_all add: name_defs nameless_descriptor_def llm_kwargs_def)

lemma no_usage_response_fields:
  "token_usage no_usage_response = Inl KeyError"
  "last_candidate no_usage_response
     = Inr \<lparr>c_text = Some ''answer'', c_message = Some \<lparr>additional_kwargs = []\<rparr>\<rparr>"
  "extract_response \<lparr>c_text = Some ''answer'', c_message = Some \<lparr>additional_kwargs = []\<rparr>\<rparr>
     = Inr (PStr ''answer'')"
  by (simp_all add: token_usage_def last_candidate_def no_usage_response_def extract_response_def
      strip_def is_space_def)

lemma root_started_sdk_logs: "sdk_logs root_started = []"
  by (simp add: sdk_logs_def root_started_eq)

subsection \<open>Counting the created traces\<close>

lemma traces_created_update [simp]:
  "traces_created (h\<lparr>runs := r\<rparr>) = traces_created h"
  "traces_created (h\<lparr>trace := t\<rparr>) = traces_created h"
  "traces_created (h\<lparr>next_span_id := n\<rparr>) = traces_created h"
  "traces_created (h\<lparr>logged := l\<rparr>) = traces_created h"
  "traces_created (log_debug msg h) = traces_created h"
  "traces_created (log_exception e h) = traces_created h"
  by (simp_all add: traces_created_def log_defs)

lemma traces_created_client [simp]:
  "traces_created (snd (client_span par gid name inp md ver h)) = traces_created h"
  "traces_created (snd (client_generation par name inp md model params ver h)) = traces_created h"
  "traces_created (snd (client_end ob outv level status usage ver h)) = traces_created h"
  "traces_created (snd (client_update t v h)) = traces_created h"
  "traces_created (update_trace run_id p v h) = traces_created h"
  by (simp_all add: traces_created_def frame update_trace_queue)

lemma traces_created_parse [simp]:
  "traces_created (snd (parse_model_and_log_errors ex s k h)) = traces_created h"
  by (simp add: parse_model_and_log_errors_def report_error_def add_task_def log_defs
      traces_created_def split: sum.splits)




section \<open>The claims\<close>

text \<open>
  C5. An end or error notification (\<^verbatim>\<open>on_chain_end\<close>, \<^verbatim>\<open>on_chain_error\<close>, \<^verbatim>\<open>on_tool_end\<close>,
  \<^verbatim>\<open>on_tool_error\<close>, \<^verbatim>\<open>on_retriever_end\<close>, \<^verbatim>\<open>on_retriever_error\<close>, \<^verbatim>\<open>on_llm_end\<close>,
  \<^verbatim>\<open>on_llm_error\<close>) whose run identifier is not in the registry is a no-op: the method
  returns, and the registry, the active trace, the root span and the event queue are
  unchanged.
\<close>

theorem unregistered_end_or_error_is_no_op:
  assumes "runs h (UuidKey run_id) = None"
  shows "no_op h (on_chain_end outputs run_id p h)
       \<and> no_op h (on_chain_error err run_id p h)
       \<and> no_op h (on_tool_end output run_id p h)
       \<and> no_op h (on_tool_error err run_id p h)
       \<and> no_op h (on_retriever_end documents run_id p h)
       \<and> no_op h (on_retriever_error err run_id p h)
       \<and> no_op h (on_llm_end response run_id p h)
       \<and> no_op h (on_llm_error err run_id p h)"
proof -
  have 1: "no_op h (on_chain_end outputs run_id p h)"
    by (simp add: on_chain_end_def end_run_unregistered [OF assms] no_op_def)
  have 2: "no_op h (on_chain_error err run_id p h)"
    by (simp add: on_chain_error_def error_run_unregistered [OF assms] no_op_def)
  have 3: "no_op h (on_tool_end output run_id p h)"
    by (simp add: on_tool_end_def end_run_unregistered [OF assms] no_op_def)
  have 4: "no_op h (on_tool_error err run_id p h)"
    using assms
    by (simp add: on_tool_error_def on_tool_error_body_def ctl_defs log_defs Let_def no_op_def)
  have 5: "no_op h (on_retriever_end documents run_id p h)"
    by (simp add: on_retriever_end_def end_run_unregistered [OF assms] no_op_def)
  have 6: "no_op h (on_retriever_error err run_id p h)"
    using assms
    by (simp add: on_retriever_error_def on_retriever_error_body_def ctl_defs log_defs Let_def
        no_op_def)
  have 7: "no_op h (on_llm_end response run_id p h)"
    using assms
    by (simp add: on_llm_end_def on_llm_end_body_def ctl_defs log_defs Let_def no_op_def)
  have 8: "no_op h (on_llm_error err run_id p h)"
    by (simp add: on_llm_error_def error_run_unregistered [OF assms] no_op_def)
  from 1 2 3 4 5 6 7 8 show ?thesis by blast
qed

theorem unregistered_end_or_error_is_no_op_witness:
  "runs root_started (UuidKey (UUID ''run-a'')) \<noteq> None
   \<and> runs root_started (UuidKey (UUID ''run-z'')) = None
   \<and> no_op root_started (on_chain_end (PStr ''out'') (UUID ''run-z'') None root_started)
   \<and> no_op root_started (on_chain_error (ErrorObj ''boom'') (UUID ''run-z'') None root_started)
   \<and> no_op root_started (on_tool_end ''out'' (UUID ''run-z'') None root_started)
   \<and> no_op root_started (on_tool_error (ErrorObj ''boom'') (UUID ''run-z'') None root_started)
   \<and> no_op root_started (on_retriever_end (PList []) (UUID ''run-z'') None root_started)
   \<and> no_op root_started (on_retriever_error (ErrorObj ''boom'') (UUID ''run-z'') None root_started)
   \<and> no_op root_started
        (on_llm_end \<lparr>generations = [], llm_output = None\<rparr> (UUID ''run-z'') None root_started)
   \<and> no_op root_started (on_llm_error (ErrorObj ''boom'') (UUID ''run-z'') None root_started)"
proof -
  have a: "runs root_started (UuidKey (UUID ''run-a'')) \<noteq> None"
    by (simp add: root_started_eq)
  have z: "runs root_started (UuidKey (UUID ''run-z'')) = None"
    by (simp add: root_started_eq)
  show ?thesis
    using a z
      unregistered_end_or_error_is_no_op [OF z, of "PStr ''out''" None "ErrorObj ''boom''" "''out''"
        "PList []" "\<lparr>generations = [], llm_output = None\<rparr>"]
    by simp
qed

text \<open>
  C6. Name resolution on a descriptor with a \<^verbatim>\<open>name\<close> and no override: the subscript
  \<^verbatim>\<open>[-1]\<close> is applied to the name itself, so the result is its last character, while the
  debug message of \<^verbatim>\<open>on_chain_start\<close> shows the whole name.
\<close>

theorem run_name_of_named_descriptor_is_its_last_character:
  "get_langchain_run_name [(''name'', PStr ''RunnableSequence'')] [] = Inr (PStr ''e'')
   \<and> debug_run_name [(''name'', PStr ''RunnableSequence'')] = Inr (PStr ''RunnableSequence'')"
  by (simp add: name_defs)

text \<open>
  C7. \<^verbatim>\<open>__join_tags_and_metadata\<close> returns \<^verbatim>\<open>None\<close> when both arguments are absent; for a
  non-empty tag list, the mapping \<^verbatim>\<open>{"tags": tags}\<close> updated with the metadata, in which
  every key of the metadata has the metadata's value and \<^verbatim>\<open>tags\<close> has the tag list unless
  the metadata defines it; and the metadata unchanged when the tags are absent or empty.
  The keys of a \<^verbatim>\<open>dict\<close> are distinct.
\<close>

theorem join_tags_and_metadata_cases:
  "join_tags_and_metadata None None = None
   \<and> (ts \<noteq> [] \<longrightarrow>
        join_tags_and_metadata (Some ts) None = Some [(''tags'', PList (map PStr ts))])
   \<and> (ts \<noteq> [] \<and> distinct (map fst m) \<longrightarrow>
        (\<exists>d. join_tags_and_metadata (Some ts) (Some m) = Some d
             \<and> d = dict_update [(''tags'', PList (map PStr ts))] m
             \<and> map_of d = [''tags'' \<mapsto> PList (map PStr ts)] ++ map_of m))
   \<and> join_tags_and_metadata None metadata = metadata
   \<and> join_tags_and_metadata (Some []) metadata = metadata
   \<and> join_tags_and_metadata (Some [''a'', ''b'']) (Some [(''k'', PStr ''v'')])
        = Some [(''tags'', PList [PStr ''a'', PStr ''b'']), (''k'', PStr ''v'')]
   \<and> join_tags_and_metadata (Some []) (Some [(''k'', PStr ''v'')]) = Some [(''k'', PStr ''v'')]"
proof -
  have 1: "join_tags_and_metadata None None = None"
    by (simp add: join_tags_and_metadata_def)
  have 2: "ts \<noteq> [] \<longrightarrow>
        join_tags_and_metadata (Some ts) None = Some [(''tags'', PList (map PStr ts))]"
    by (simp add: join_tags_and_metadata_def)
  have 3: "ts \<noteq> [] \<and> distinct (map fst m) \<longrightarrow>
        (\<exists>d. join_tags_and_metadata (Some ts) (Some m) = Some d
             \<and> d = dict_update [(''tags'', PList (map PStr ts))] m
             \<and> map_of d = [''tags'' \<mapsto> PList (map PStr ts)] ++ map_of m)"
    by (simp add: join_tags_and_metadata_def map_of_dict_update)
  have 4: "join_tags_and_metadata None metadata = metadata"
    by (simp add: join_tags_and_metadata_def)
  have 5: "join_tags_and_metadata (Some []) metadata = metadata"
    by (cases metadata) (simp_all add: join_tags_and_metadata_def)
  have 6: "join_tags_and_metadata (Some [''a'', ''b'']) (Some [(''k'', PStr ''v'')])
        = Some [(''tags'', PList [PStr ''a'', PStr ''b'']), (''k'', PStr ''v'')]"
    by (simp add: join_tags_and_metadata_def dict_update_def)
  have 7: "join_tags_and_metadata (Some []) (Some [(''k'', PStr ''v'')]) = Some [(''k'', PStr ''v'')]"
    by (simp add: join_tags_and_metadata_def)
  from 1 2 3 4 5 6 7 show ?thesis by blast
qed

theorem join_tags_and_metadata_cases_witness:
  "[''a'', ''b''] \<noteq> [] \<and> distinct (map fst [(''tags'', PStr ''mine''), (''k'', PStr ''v'')])
   \<and> join_tags_and_metadata (Some [''a'', ''b'']) None
        = Some [(''tags'', PList [PStr ''a'', PStr ''b''])]
   \<and> join_tags_and_metadata (Some [''a'', ''b'']) (Some [(''tags'', PStr ''mine''), (''k'', PStr ''v'')])
        = Some [(''tags'', PStr ''mine''), (''k'', PStr ''v'')]
   \<and> map_of (the (join_tags_and_metadata (Some [''a'', ''b''])
                    (Some [(''tags'', PStr ''mine''), (''k'', PStr ''v'')]))) ''tags''
        = Some (PStr ''mine'')"
  using join_tags_and_metadata_cases [of "[''a'', ''b'']" "[(''tags'', PStr ''mine''), (''k'', PStr ''v'')]"]
  by (simp add: dict_update_def)

text \<open>
  C9. A generation start notification (\<^verbatim>\<open>on_llm_start\<close>, \<^verbatim>\<open>on_chat_model_start\<close>) whose
  keyword arguments carry an \<^verbatim>\<open>invocation_params\<close> mapping creates a generation whose
  \<^verbatim>\<open>model_parameters\<close> hold exactly the keys among \<^verbatim>\<open>temperature\<close>, \<^verbatim>\<open>max_tokens\<close>,
  \<^verbatim>\<open>top_p\<close>, \<^verbatim>\<open>frequency_penalty\<close>, \<^verbatim>\<open>presence_penalty\<close>, \<^verbatim>\<open>request_timeout\<close> whose
  value in the invocation parameters is present and not \<^verbatim>\<open>None\<close>, with those values. The
  generation is created when the run name resolves and a trace is there or can be
  bootstrapped.
\<close>

theorem generation_model_parameters:
  assumes "invocation_params kwargs = Inr ip"
      and "get_langchain_run_name serialized kwargs = Inr name"
      and "trace h \<noteq> None \<or> (langfuse h \<noteq> None \<and> get_langchain_run_name serialized [] = Inr nm)"
  shows "(\<exists>g. runs (snd (on_llm_start ex serialized prompts run_id p tags metadata kwargs h))
                 (UuidKey run_id) = Some g
              \<and> o_kind g = GENERATION
              \<and> o_model_parameters g = model_parameters ip)
       \<and> (\<not> dict_has kwargs ''prompts'' \<longrightarrow>
            (\<exists>g. runs (snd (on_chat_model_start ex serialized prompts run_id p tags metadata kwargs h))
                    (UuidKey run_id) = Some g
                 \<and> o_kind g = GENERATION
                 \<and> o_model_parameters g = model_parameters ip))
       \<and> distinct (map fst (model_parameters ip))
       \<and> (\<forall>k. map_of (model_parameters ip) k
                = (if k \<in> set parameter_keys \<and> map_of ip k \<noteq> None \<and> map_of ip k \<noteq> Some PNone
                   then map_of ip k else None))
       \<and> model_parameters [(''temperature'', PFloat (7 / 10)), (''max_tokens'', PNone)]
            = [(''temperature'', PFloat (7 / 10))]"
proof -
  have tr: "trace (log_debug msg h) \<noteq> None
              \<or> (langfuse (log_debug msg h) \<noteq> None \<and> get_langchain_run_name serialized [] = Inr nm)"
    for msg using assms(3) by (simp add: frame)
  have 1: "\<exists>g. runs (snd (on_llm_start ex serialized prompts run_id p tags metadata kwargs h))
                 (UuidKey run_id) = Some g
              \<and> o_kind g = GENERATION \<and> o_model_parameters g = model_parameters ip"
    unfolding llm_start_snd by (rule llm_action_registers [OF assms(1,2) tr])
  have 2: "\<not> dict_has kwargs ''prompts'' \<longrightarrow>
            (\<exists>g. runs (snd (on_chat_model_start ex serialized prompts run_id p tags metadata kwargs h))
                    (UuidKey run_id) = Some g
                 \<and> o_kind g = GENERATION \<and> o_model_parameters g = model_parameters ip)"
    using llm_action_registers [OF assms(1,2) tr] by (simp add: chat_model_start_snd)
  have 3: "model_parameters [(''temperature'', PFloat (7 / 10)), (''max_tokens'', PNone)]
            = [(''temperature'', PFloat (7 / 10))]"
    by (simp add: model_parameters_def parameter_keys_def dict_get_def)
  from 1 2 3 distinct_model_parameters map_of_model_parameters show ?thesis by blast
qed

theorem generation_model_parameters_witness:
  "invocation_params llm_kwargs = Inr [(''temperature'', PFloat (7 / 10)), (''max_tokens'', PNone)]
   \<and> get_langchain_run_name llm_descriptor llm_kwargs = Inr (PStr ''ChatOpenAI'')
   \<and> langfuse keyed_handler \<noteq> None
   \<and> get_langchain_run_name llm_descriptor [] = Inr (PStr ''ChatOpenAI'')
   \<and> dict_has llm_kwargs ''prompts'' = False
   \<and> o_model_parameters (the (runs (snd (on_llm_start gpt_model_name llm_descriptor
         (PList [PStr ''hello'']) (UUID ''run-g'') None None None llm_kwargs keyed_handler))
         (UuidKey (UUID ''run-g'')))) = [(''temperature'', PFloat (7 / 10))]
   \<and> o_model_parameters (the (runs (snd (on_chat_model_start gpt_model_name llm_descriptor
         (PList [PStr ''hello'']) (UUID ''run-g'') None None None llm_kwargs keyed_handler))
         (UuidKey (UUID ''run-g'')))) = [(''temperature'', PFloat (7 / 10))]"
proof -
  have a: "invocation_params llm_kwargs = Inr [(''temperature'', PFloat (7 / 10)), (''max_tokens'', PNone)]"
    by (simp add: invocation_params_def llm_kwargs_def)
  have b: "get_langchain_run_name llm_descriptor llm_kwargs = Inr (PStr ''ChatOpenAI'')"
    by (simp add: name_defs llm_descriptor_def llm_kwargs_def)
  have c: "get_langchain_run_name llm_descriptor [] = Inr (PStr ''ChatOpenAI'')"
    by (simp add: name_defs llm_descriptor_def)
  have d: "langfuse keyed_handler \<noteq> None"
    by (simp add: keyed_handler_def blank_handler_def)
  have e: "dict_has llm_kwargs ''prompts'' = False"
    by (simp add: dict_has_def llm_kwargs_def)
  have f: "trace keyed_handler \<noteq> None
        \<or> (langfuse keyed_handler \<noteq> None \<and> get_langchain_run_name llm_descriptor [] = Inr (PStr ''ChatOpenAI''))"
    using c d by simp
  show ?thesis
    using a b c d e
      generation_model_parameters [OF a b f, of gpt_model_name "PList [PStr ''hello'']"
        "UUID ''run-g''" None None None]
    by auto
qed

text \<open>
  C10. \<^verbatim>\<open>on_tool_error\<close> on a registered run passes the error object itself as the status
  message, where \<^verbatim>\<open>on_chain_error\<close> (as \<^verbatim>\<open>on_llm_error\<close> and \<^verbatim>\<open>on_retriever_error\<close>) passes
  \<^verbatim>\<open>str(error)\<close>.
\<close>

theorem tool_error_status_message_is_not_stringified:
  "o_status_message (the (runs (snd (on_tool_error (ErrorObj ''boom'') (UUID ''run-b'')
        (Some (UUID ''run-a'')) tool_started)) (UuidKey (UUID ''run-b''))))
     = Some (PError (ErrorObj ''boom''))
   \<and> o_status_message (the (runs (snd (on_chain_error (ErrorObj ''boom'') (UUID ''run-b'')
        (Some (UUID ''run-a'')) tool_started)) (UuidKey (UUID ''run-b''))))
     = Some (PStr ''boom'')
   \<and> PError (ErrorObj ''boom'') \<noteq> PStr (str_error (ErrorObj ''boom''))"
proof -
  obtain run where run: "runs tool_started (UuidKey (UUID ''run-b'')) = Some run"
    using tool_started_runs(1) by blast
  show ?thesis
    by (simp add: tool_error_registered [OF run] on_chain_error_def error_run_registered [OF run]
        frame)
qed







text \<open>
  C3 (amended). On a stateless handler that holds an active trace, a start notification
  without a parent discards the registry and the trace before it creates the new trace,
  so that afterwards the registry has no key but the new run identifier and the active
  trace is the new one, in these cases: the run name of the descriptor alone resolves
  (\<^verbatim>\<open>serialized.get("name", serialized.get("id", ["<unknown>"]))[-1]\<close> evaluates), and the
  notification is \<^verbatim>\<open>on_llm_start\<close>, or \<^verbatim>\<open>on_chat_model_start\<close> with no \<^verbatim>\<open>prompts\<close> among its
  keyword arguments, or \<^verbatim>\<open>on_chain_start\<close> with no \<^verbatim>\<open>version\<close> among its keyword arguments
  and a descriptor whose debug name resolves (\<^verbatim>\<open>serialized.get("id", ["<unknown>"])[-1]\<close>
  evaluates). \<^verbatim>\<open>on_tool_start\<close> and \<^verbatim>\<open>on_retriever_start\<close> without a parent are rejected
  and change neither registry nor trace, on every handler. On a handler built on a trace
  or span of the user, no start notification resets anything: every other key of the
  registry and the trace are kept.
\<close>

theorem new_root_discards_registry_of_stateless_handler:
  "(langfuse h \<noteq> None \<and> trace h \<noteq> None \<and> get_langchain_run_name serialized [] = Inr nm \<longrightarrow>
      (debug_run_name serialized = Inr shown \<and> \<not> dict_has kwargs ''version'' \<longrightarrow>
         (\<forall>k. k \<noteq> UuidKey run_id \<longrightarrow>
            runs (snd (on_chain_start serialized inputs run_id None tags metadata kwargs h)) k = None)
         \<and> (\<exists>t. trace (snd (on_chain_start serialized inputs run_id None tags metadata kwargs h)) = Some t
                \<and> t_id t = str_uuid run_id))
      \<and> (\<forall>k. k \<noteq> UuidKey run_id \<longrightarrow>
            runs (snd (on_llm_start ex serialized inputs run_id None tags metadata kwargs h)) k = None)
      \<and> (\<exists>t. trace (snd (on_llm_start ex serialized inputs run_id None tags metadata kwargs h)) = Some t
             \<and> t_id t = str_uuid run_id)
      \<and> (\<not> dict_has kwargs ''prompts'' \<longrightarrow>
           (\<forall>k. k \<noteq> UuidKey run_id \<longrightarrow>
              runs (snd (on_chat_model_start ex serialized inputs run_id None tags metadata kwargs h)) k
                = None)
           \<and> (\<exists>t. trace (snd (on_chat_model_start ex serialized inputs run_id None tags metadata
                               kwargs h)) = Some t
                  \<and> t_id t = str_uuid run_id)))
   \<and> no_op h (on_tool_start serialized input_str run_id None tags metadata kwargs h)
   \<and> no_op h (on_retriever_start serialized input_str run_id None tags metadata kwargs h)
   \<and> (langfuse h = None \<longrightarrow>
        (\<forall>k. k \<noteq> UuidKey run_id \<longrightarrow>
           runs (snd (on_chain_start serialized inputs run_id p tags metadata kwargs h)) k = runs h k
           \<and> runs (snd (on_llm_start ex serialized inputs run_id p tags metadata kwargs h)) k = runs h k
           \<and> runs (snd (on_chat_model_start ex serialized inputs run_id p tags metadata kwargs h)) k
               = runs h k
           \<and> runs (snd (on_tool_start serialized input_str run_id p tags metadata kwargs h)) k = runs h k
           \<and> runs (snd (on_retriever_start serialized input_str run_id p tags metadata kwargs h)) k = runs h k)
        \<and> trace (snd (on_chain_start serialized inputs run_id p tags metadata kwargs h)) = trace h
        \<and> trace (snd (on_llm_start ex serialized inputs run_id p tags metadata kwargs h)) = trace h
        \<and> trace (snd (on_chat_model_start ex serialized inputs run_id p tags metadata kwargs h)) = trace h
        \<and> trace (snd (on_tool_start serialized input_str run_id p tags metadata kwargs h)) = trace h
        \<and> trace (snd (on_retriever_start serialized input_str run_id p tags metadata kwargs h)) = trace h)"
proof -
  have a: "langfuse h \<noteq> None \<and> trace h \<noteq> None \<and> get_langchain_run_name serialized [] = Inr nm \<longrightarrow>
      (debug_run_name serialized = Inr shown \<and> \<not> dict_has kwargs ''version'' \<longrightarrow>
         (\<forall>k. k \<noteq> UuidKey run_id \<longrightarrow>
            runs (snd (on_chain_start serialized inputs run_id None tags metadata kwargs h)) k = None)
         \<and> (\<exists>t. trace (snd (on_chain_start serialized inputs run_id None tags metadata kwargs h)) = Some t
                \<and> t_id t = str_uuid run_id))
      \<and> (\<forall>k. k \<noteq> UuidKey run_id \<longrightarrow>
            runs (snd (on_llm_start ex serialized inputs run_id None tags metadata kwargs h)) k = None)
      \<and> (\<exists>t. trace (snd (on_llm_start ex serialized inputs run_id None tags metadata kwargs h)) = Some t
             \<and> t_id t = str_uuid run_id)
      \<and> (\<not> dict_has kwargs ''prompts'' \<longrightarrow>
           (\<forall>k. k \<noteq> UuidKey run_id \<longrightarrow>
              runs (snd (on_chat_model_start ex serialized inputs run_id None tags metadata kwargs h)) k
                = None)
           \<and> (\<exists>t. trace (snd (on_chat_model_start ex serialized inputs run_id None tags metadata
                               kwargs h)) = Some t
                  \<and> t_id t = str_uuid run_id))"
  proof (intro impI)
    assume h: "langfuse h \<noteq> None \<and> trace h \<noteq> None \<and> get_langchain_run_name serialized [] = Inr nm"
    have 1: "debug_run_name serialized = Inr shown \<and> \<not> dict_has kwargs ''version'' \<longrightarrow>
         (\<forall>k. k \<noteq> UuidKey run_id \<longrightarrow>
            runs (snd (on_chain_start serialized inputs run_id None tags metadata kwargs h)) k = None)
         \<and> (\<exists>t. trace (snd (on_chain_start serialized inputs run_id None tags metadata kwargs h)) = Some t
                \<and> t_id t = str_uuid run_id)"
      using h chain_start_root [of h serialized shown nm kwargs inputs run_id tags metadata]
      by auto
    have lf: "langfuse (log_debug msg h) \<noteq> None" "trace (log_debug msg h) \<noteq> None" for msg
      using h by (simp_all add: frame)
    note 2 = llm_action_new_root [of "log_debug ''on llm start'' h" serialized nm run_id ex inputs
        tags metadata kwargs]
      llm_action_new_root [of "log_debug ''on chat model start'' h" serialized nm run_id ex inputs
        tags metadata kwargs]
    show "(debug_run_name serialized = Inr shown \<and> \<not> dict_has kwargs ''version'' \<longrightarrow>
         (\<forall>k. k \<noteq> UuidKey run_id \<longrightarrow>
            runs (snd (on_chain_start serialized inputs run_id None tags metadata kwargs h)) k = None)
         \<and> (\<exists>t. trace (snd (on_chain_start serialized inputs run_id None tags metadata kwargs h)) = Some t
                \<and> t_id t = str_uuid run_id))
      \<and> (\<forall>k. k \<noteq> UuidKey run_id \<longrightarrow>
            runs (snd (on_llm_start ex serialized inputs run_id None tags metadata kwargs h)) k = None)
      \<and> (\<exists>t. trace (snd (on_llm_start ex serialized inputs run_id None tags metadata kwargs h)) = Some t
             \<and> t_id t = str_uuid run_id)
      \<and> (\<not> dict_has kwargs ''prompts'' \<longrightarrow>
           (\<forall>k. k \<noteq> UuidKey run_id \<longrightarrow>
              runs (snd (on_chat_model_start ex serialized inputs run_id None tags metadata kwargs h)) k
                = None)
           \<and> (\<exists>t. trace (snd (on_chat_model_start ex serialized inputs run_id None tags metadata
                               kwargs h)) = Some t
                  \<and> t_id t = str_uuid run_id))"
      using 1 2 h lf by (simp add: llm_start_snd chat_model_start_cases)
  qed
  have b: "no_op h (on_tool_start serialized input_str run_id None tags metadata kwargs h)
         \<and> no_op h (on_retriever_start serialized input_str run_id None tags metadata kwargs h)"
    by (simp add: tool_start_root_rejected retriever_start_root_rejected)
  have c: "langfuse h = None \<longrightarrow>
        (\<forall>k. k \<noteq> UuidKey run_id \<longrightarrow>
           runs (snd (on_chain_start serialized inputs run_id p tags metadata kwargs h)) k = runs h k
           \<and> runs (snd (on_llm_start ex serialized inputs run_id p tags metadata kwargs h)) k = runs h k
           \<and> runs (snd (on_chat_model_start ex serialized inputs run_id p tags metadata kwargs h)) k
               = runs h k
           \<and> runs (snd (on_tool_start serialized input_str run_id p tags metadata kwargs h)) k = runs h k
           \<and> runs (snd (on_retriever_start serialized input_str run_id p tags metadata kwargs h)) k = runs h k)
        \<and> trace (snd (on_chain_start serialized inputs run_id p tags metadata kwargs h)) = trace h
        \<and> trace (snd (on_llm_start ex serialized inputs run_id p tags metadata kwargs h)) = trace h
        \<and> trace (snd (on_chat_model_start ex serialized inputs run_id p tags metadata kwargs h)) = trace h
        \<and> trace (snd (on_tool_start serialized input_str run_id p tags metadata kwargs h)) = trace h
        \<and> trace (snd (on_retriever_start serialized input_str run_id p tags metadata kwargs h)) = trace h"
  proof
    assume h: "langfuse h = None"
    have lf: "langfuse (log_debug msg h) = None" for msg
      using h by (simp add: frame)
    show "(\<forall>k. k \<noteq> UuidKey run_id \<longrightarrow>
           runs (snd (on_chain_start serialized inputs run_id p tags metadata kwargs h)) k = runs h k
           \<and> runs (snd (on_llm_start ex serialized inputs run_id p tags metadata kwargs h)) k = runs h k
           \<and> runs (snd (on_chat_model_start ex serialized inputs run_id p tags metadata kwargs h)) k
               = runs h k
           \<and> runs (snd (on_tool_start serialized input_str run_id p tags metadata kwargs h)) k = runs h k
           \<and> runs (snd (on_retriever_start serialized input_str run_id p tags metadata kwargs h)) k = runs h k)
        \<and> trace (snd (on_chain_start serialized inputs run_id p tags metadata kwargs h)) = trace h
        \<and> trace (snd (on_llm_start ex serialized inputs run_id p tags metadata kwargs h)) = trace h
        \<and> trace (snd (on_chat_model_start ex serialized inputs run_id p tags metadata kwargs h)) = trace h
        \<and> trace (snd (on_tool_start serialized input_str run_id p tags metadata kwargs h)) = trace h
        \<and> trace (snd (on_retriever_start serialized input_str run_id p tags metadata kwargs h)) = trace h"
      using chain_start_stateful [OF h, of run_id serialized inputs p tags metadata kwargs]
        llm_action_stateful [of "log_debug ''on llm start'' h" run_id ex serialized inputs p tags
          metadata kwargs]
        llm_action_stateful [of "log_debug ''on chat model start'' h" run_id ex serialized inputs p
          tags metadata kwargs]
        lf
        tool_start_other [of run_id serialized input_str p tags metadata kwargs h]
        retriever_start_other [of run_id serialized input_str p tags metadata kwargs h]
      by (simp add: llm_start_snd chat_model_start_cases frame)
  qed
  from a b c show ?thesis by blast
qed

theorem new_root_discards_registry_of_stateless_handler_witness:
  "langfuse root_started \<noteq> None \<and> trace root_started \<noteq> None
   \<and> get_langchain_run_name chain_descriptor [] = Inr (PStr ''LLMChain'')
   \<and> debug_run_name chain_descriptor = Inr (PStr ''LLMChain'')
   \<and> dict_has llm_kwargs ''version'' = False \<and> dict_has llm_kwargs ''prompts'' = False
   \<and> runs root_started (UuidKey (UUID ''run-a'')) \<noteq> None
   \<and> runs (snd (on_chain_start chain_descriptor (PStr ''again'') (UUID ''run-c'') None None None
                  llm_kwargs root_started)) (UuidKey (UUID ''run-a'')) = None
   \<and> runs (snd (on_llm_start gpt_model_name chain_descriptor (PStr ''again'') (UUID ''run-c'') None
                  None None llm_kwargs root_started)) (UuidKey (UUID ''run-a'')) = None
   \<and> runs (snd (on_chat_model_start gpt_model_name chain_descriptor (PStr ''again'') (UUID ''run-c'')
                  None None None llm_kwargs root_started)) (UuidKey (UUID ''run-a'')) = None
   \<and> langfuse traced_started = None
   \<and> runs traced_started (UuidKey (UUID ''run-a'')) \<noteq> None
   \<and> runs (snd (on_chain_start chain_descriptor (PStr ''again'') (UUID ''run-c'') None None None
                  llm_kwargs traced_started)) (UuidKey (UUID ''run-a''))
       = runs traced_started (UuidKey (UUID ''run-a''))
   \<and> trace (snd (on_chain_start chain_descriptor (PStr ''again'') (UUID ''run-c'') None None None
                  llm_kwargs traced_started)) = Some user_trace"
proof -
  have k: "UuidKey (UUID ''run-a'') \<noteq> UuidKey (UUID ''run-c'')" by simp
  have v: "dict_has llm_kwargs ''version'' = False" "dict_has llm_kwargs ''prompts'' = False"
    by (simp_all add: dict_has_def llm_kwargs_def)
  note w1 = new_root_discards_registry_of_stateless_handler [of root_started chain_descriptor
      "PStr ''LLMChain''" "PStr ''LLMChain''" llm_kwargs "UUID ''run-c''" "PStr ''again''" None None
      gpt_model_name "''2+2''" None]
  note w2 = new_root_discards_registry_of_stateless_handler [of traced_started chain_descriptor
      "PStr ''LLMChain''" "PStr ''LLMChain''" llm_kwargs "UUID ''run-c''" "PStr ''again''" None None
      gpt_model_name "''2+2''" None]
  show ?thesis
    using k v root_started_fields traced_started_fields chain_descriptor_names w1 w2
    by simp
qed

text \<open>
  C3 as stated fails for \<^verbatim>\<open>on_tool_start\<close>: without a parent it is rejected by its guard
  (\<^verbatim>\<open>parent run not found\<close>), and the registry of the previous execution stays.
\<close>

theorem root_tool_start_keeps_registry:
  "langfuse root_started \<noteq> None \<and> trace root_started \<noteq> None
   \<and> runs root_started (UuidKey (UUID ''run-a'')) \<noteq> None
   \<and> runs (snd (on_tool_start tool_descriptor ''2+2'' (UUID ''run-t'') None (Some []) (Some []) []
                  root_started)) (UuidKey (UUID ''run-a'')) \<noteq> None
   \<and> trace (snd (on_tool_start tool_descriptor ''2+2'' (UUID ''run-t'') None (Some []) (Some []) []
                   root_started)) = trace root_started"
  using root_started_fields by (simp add: tool_start_root_rejected)

text \<open>
  C4 (amended). \<^verbatim>\<open>on_chain_start\<close>, \<^verbatim>\<open>on_tool_start\<close> and \<^verbatim>\<open>on_retriever_start\<close> with a
  parent that is not in the registry log a failure and return with the registry as it
  was. A generation start with such a parent is not dropped: \<^verbatim>\<open>on_llm_start\<close>, and
  \<^verbatim>\<open>on_chat_model_start\<close> with no \<^verbatim>\<open>prompts\<close> among its keyword arguments, register the
  generation under the run identifier as a direct child of the trace, when the keyword
  arguments hold an \<^verbatim>\<open>invocation_params\<close> mapping, the run name resolves, and a trace is
  active or the handler is stateless and the run name of the descriptor alone resolves.
\<close>

theorem start_with_unknown_parent:
  assumes "runs h (UuidKey q) = None"
  shows "runs (snd (on_chain_start serialized inputs run_id (Some q) tags metadata kwargs h)) = runs h
       \<and> failure_logged (snd (on_chain_start serialized inputs run_id (Some q) tags metadata kwargs h))
       \<and> runs (snd (on_tool_start serialized input_str run_id (Some q) tags metadata kwargs h)) = runs h
       \<and> failure_logged (snd (on_tool_start serialized input_str run_id (Some q) tags metadata kwargs h))
       \<and> runs (snd (on_retriever_start serialized input_str run_id (Some q) tags metadata kwargs h))
           = runs h
       \<and> failure_logged
           (snd (on_retriever_start serialized input_str run_id (Some q) tags metadata kwargs h))
       \<and> (invocation_params kwargs = Inr ip \<and> get_langchain_run_name serialized kwargs = Inr name
            \<and> (trace h \<noteq> None
                \<or> (langfuse h \<noteq> None \<and> get_langchain_run_name serialized [] = Inr nm)) \<longrightarrow>
           (\<exists>g t. runs (snd (on_llm_start ex serialized inputs run_id (Some q) tags metadata kwargs h))
                     (UuidKey run_id) = Some g
                 \<and> trace (snd (on_llm_start ex serialized inputs run_id (Some q) tags metadata kwargs h))
                     = Some t
                 \<and> o_kind g = GENERATION \<and> o_parent_id g = None \<and> o_trace_id g = t_id t)
           \<and> (\<not> dict_has kwargs ''prompts'' \<longrightarrow>
                (\<exists>g t. runs (snd (on_chat_model_start ex serialized inputs run_id (Some q) tags
                                    metadata kwargs h)) (UuidKey run_id) = Some g
                      \<and> trace (snd (on_chat_model_start ex serialized inputs run_id (Some q) tags
                                      metadata kwargs h)) = Some t
                      \<and> o_kind g = GENERATION \<and> o_parent_id g = None \<and> o_trace_id g = t_id t)))"
proof -
  note 1 = chain_start_unknown_parent [OF assms, of serialized inputs run_id tags metadata kwargs]
  have 2: "runs (snd (on_tool_start serialized input_str run_id (Some q) tags metadata kwargs h)) = runs h
       \<and> failure_logged (snd (on_tool_start serialized input_str run_id (Some q) tags metadata kwargs h))"
    by (simp add: tool_start_unknown_parent [OF assms] failure_logged_def)
  have 3: "runs (snd (on_retriever_start serialized input_str run_id (Some q) tags metadata kwargs h))
           = runs h
       \<and> failure_logged
           (snd (on_retriever_start serialized input_str run_id (Some q) tags metadata kwargs h))"
    by (simp add: retriever_start_unknown_parent [OF assms] failure_logged_def)
  have 4: "invocation_params kwargs = Inr ip \<and> get_langchain_run_name serialized kwargs = Inr name
            \<and> (trace h \<noteq> None
                \<or> (langfuse h \<noteq> None \<and> get_langchain_run_name serialized [] = Inr nm)) \<longrightarrow>
           (\<exists>g t. runs (snd (on_llm_start ex serialized inputs run_id (Some q) tags metadata kwargs h))
                     (UuidKey run_id) = Some g
                 \<and> trace (snd (on_llm_start ex serialized inputs run_id (Some q) tags metadata kwargs h))
                     = Some t
                 \<and> o_kind g = GENERATION \<and> o_parent_id g = None \<and> o_trace_id g = t_id t)
           \<and> (\<not> dict_has kwargs ''prompts'' \<longrightarrow>
                (\<exists>g t. runs (snd (on_chat_model_start ex serialized inputs run_id (Some q) tags
                                    metadata kwargs h)) (UuidKey run_id) = Some g
                      \<and> trace (snd (on_chat_model_start ex serialized inputs run_id (Some q) tags
                                      metadata kwargs h)) = Some t
                      \<and> o_kind g = GENERATION \<and> o_parent_id g = None \<and> o_trace_id g = t_id t))"
  proof (intro impI)
    assume h: "invocation_params kwargs = Inr ip \<and> get_langchain_run_name serialized kwargs = Inr name
            \<and> (trace h \<noteq> None
                \<or> (langfuse h \<noteq> None \<and> get_langchain_run_name serialized [] = Inr nm))"
    have q: "runs (log_debug msg h) (UuidKey q) = None" for msg
      using assms by (simp add: frame)
    have tr: "trace (log_debug msg h) \<noteq> None
        \<or> (langfuse (log_debug msg h) \<noteq> None \<and> get_langchain_run_name serialized [] = Inr nm)"
      for msg using h by (simp add: frame)
    from h have ip: "invocation_params kwargs = Inr ip"
      and name: "get_langchain_run_name serialized kwargs = Inr name" by simp_all
    note g = llm_action_unknown_parent [OF q ip name tr]
    show "(\<exists>g t. runs (snd (on_llm_start ex serialized inputs run_id (Some q) tags metadata kwargs h))
                     (UuidKey run_id) = Some g
                 \<and> trace (snd (on_llm_start ex serialized inputs run_id (Some q) tags metadata kwargs h))
                     = Some t
                 \<and> o_kind g = GENERATION \<and> o_parent_id g = None \<and> o_trace_id g = t_id t)
           \<and> (\<not> dict_has kwargs ''prompts'' \<longrightarrow>
                (\<exists>g t. runs (snd (on_chat_model_start ex serialized inputs run_id (Some q) tags
                                    metadata kwargs h)) (UuidKey run_id) = Some g
                      \<and> trace (snd (on_chat_model_start ex serialized inputs run_id (Some q) tags
                                      metadata kwargs h)) = Some t
                      \<and> o_kind g = GENERATION \<and> o_parent_id g = None \<and> o_trace_id g = t_id t))"
      using g by (simp add: llm_start_snd chat_model_start_cases)
  qed
  from 1 2 3 4 show ?thesis by blast
qed

theorem start_with_unknown_parent_witness:
  "runs root_started (UuidKey (UUID ''run-x'')) = None
   \<and> runs (snd (on_chain_start chain_descriptor (PStr ''hi'') (UUID ''run-c'') (Some (UUID ''run-x''))
                  None None [] root_started)) = runs root_started
   \<and> failure_logged (snd (on_chain_start chain_descriptor (PStr ''hi'') (UUID ''run-c'')
                  (Some (UUID ''run-x'')) None None [] root_started))
   \<and> runs (snd (on_tool_start chain_descriptor ''2+2'' (UUID ''run-c'') (Some (UUID ''run-x''))
                  None None [] root_started)) = runs root_started
   \<and> runs (snd (on_retriever_start chain_descriptor ''2+2'' (UUID ''run-c'') (Some (UUID ''run-x''))
                  None None [] root_started)) = runs root_started
   \<and> invocation_params llm_kwargs = Inr [(''temperature'', PFloat (7 / 10)), (''max_tokens'', PNone)]
   \<and> get_langchain_run_name llm_descriptor llm_kwargs = Inr (PStr ''ChatOpenAI'')
   \<and> trace root_started \<noteq> None
   \<and> o_parent_id (the (runs (snd (on_llm_start gpt_model_name llm_descriptor (PStr ''hi'')
          (UUID ''run-c'') (Some (UUID ''run-x'')) None None llm_kwargs root_started))
          (UuidKey (UUID ''run-c'')))) = None"
proof -
  note w1 = start_with_unknown_parent [OF root_started_fields(4), of chain_descriptor "PStr ''hi''"
      "UUID ''run-c''" None None "[]" "''2+2''" _ _ _ gpt_model_name]
  note w2 = start_with_unknown_parent [OF root_started_fields(4), of llm_descriptor "PStr ''hi''"
      "UUID ''run-c''" None None llm_kwargs "''2+2''"
      "[(''temperature'', PFloat (7 / 10)), (''max_tokens'', PNone)]" "PStr ''ChatOpenAI''"
      "PStr ''ChatOpenAI''" gpt_model_name]
  show ?thesis
    using root_started_fields llm_names w1 w2 by auto
qed

text \<open>
  C4 as stated fails for \<^verbatim>\<open>on_llm_start\<close>: with a parent that is not registered, the last
  branch of \<^verbatim>\<open>__on_llm_action\<close> attaches the generation to the trace and registers it.
\<close>

theorem generation_with_unknown_parent_is_registered:
  "runs root_started (UuidKey (UUID ''run-x'')) = None
   \<and> runs root_started (UuidKey (UUID ''run-g'')) = None
   \<and> runs (snd (on_llm_start gpt_model_name llm_descriptor (PList [PStr ''hello'']) (UUID ''run-g'')
                  (Some (UUID ''run-x'')) None None llm_kwargs root_started))
        (UuidKey (UUID ''run-g'')) \<noteq> None"
proof -
  have q: "runs (log_debug ''on llm start'' root_started) (UuidKey (UUID ''run-x'')) = None"
    by (simp add: frame root_started_fields)
  have tr: "trace (log_debug ''on llm start'' root_started) \<noteq> None
        \<or> (langfuse (log_debug ''on llm start'' root_started) \<noteq> None
            \<and> get_langchain_run_name llm_descriptor [] = Inr (PStr ''ChatOpenAI''))"
    by (simp add: frame root_started_fields)
  have g: "runs root_started (UuidKey (UUID ''run-g'')) = None"
    by (simp add: root_started_eq)
  show ?thesis
    using llm_action_unknown_parent [OF q llm_names(1,2) tr, of gpt_model_name "UUID ''run-g''"
        "PList [PStr ''hello'']" None None] g
    by (auto simp: llm_start_snd root_started_fields)
qed

text \<open>
  C1 (amended). Every notification method (\<^verbatim>\<open>on_chain_start\<close>, \<^verbatim>\<open>on_chain_end\<close>,
  \<^verbatim>\<open>on_chain_error\<close>, \<^verbatim>\<open>on_llm_start\<close>, \<^verbatim>\<open>on_chat_model_start\<close>, \<^verbatim>\<open>on_llm_end\<close>,
  \<^verbatim>\<open>on_llm_error\<close>, \<^verbatim>\<open>on_tool_start\<close>, \<^verbatim>\<open>on_tool_end\<close>, \<^verbatim>\<open>on_tool_error\<close>,
  \<^verbatim>\<open>on_retriever_start\<close>, \<^verbatim>\<open>on_retriever_end\<close>, \<^verbatim>\<open>on_retriever_error\<close>,
  \<^verbatim>\<open>on_agent_action\<close>, \<^verbatim>\<open>on_agent_finish\<close>) returns on every input and every handler.
  A failure is logged, the log ending with the exception: an end, error or agent
  notification for a run that is not registered; a tool or retriever start without a
  registered parent; a chain start with a parent that is not registered; a chain, tool,
  retriever or generation start whose name resolution raises; an \<^verbatim>\<open>on_llm_end\<close> whose
  response has no last candidate, no readable usage or no extractable output. When the
  extractor of the model name raises, its exception is in the log (for
  \<^verbatim>\<open>on_chat_model_start\<close>, when there is no \<^verbatim>\<open>prompts\<close> keyword). The diagnostic events
  of the queue are changed by no method but \<^verbatim>\<open>on_llm_start\<close> and \<^verbatim>\<open>on_chat_model_start\<close>
  (the latter only without a \<^verbatim>\<open>prompts\<close> keyword), which add exactly one event when the
  extractor of the model name raises or returns \<^verbatim>\<open>None\<close>, and none otherwise.
\<close>

theorem notifications_never_raise:
  "(fst (on_chain_start serialized inputs run_id p tags metadata kwargs h) = Returned
    \<and> fst (on_chain_end outv run_id p h) = Returned
    \<and> fst (on_chain_error err run_id p h) = Returned
    \<and> fst (on_llm_start ex serialized inputs run_id p tags metadata kwargs h) = Returned
    \<and> fst (on_chat_model_start ex serialized inputs run_id p tags metadata kwargs h) = Returned
    \<and> fst (on_llm_end response run_id p h) = Returned
    \<and> fst (on_llm_error err run_id p h) = Returned
    \<and> fst (on_tool_start serialized input_str run_id p tags metadata kwargs h) = Returned
    \<and> fst (on_tool_end input_str run_id p h) = Returned
    \<and> fst (on_tool_error err run_id p h) = Returned
    \<and> fst (on_retriever_start serialized input_str run_id p tags metadata kwargs h) = Returned
    \<and> fst (on_retriever_end outv run_id p h) = Returned
    \<and> fst (on_retriever_error err run_id p h) = Returned
    \<and> fst (on_agent_action outv run_id p h) = Returned
    \<and> fst (on_agent_finish outv run_id p h) = Returned)
   \<and> (runs h (UuidKey run_id) = None \<longrightarrow>
        logs_failure h (snd (on_chain_end outv run_id p h))
        \<and> logs_failure h (snd (on_chain_error err run_id p h))
        \<and> logs_failure h (snd (on_llm_end response run_id p h))
        \<and> logs_failure h (snd (on_llm_error err run_id p h))
        \<and> logs_failure h (snd (on_tool_end input_str run_id p h))
        \<and> logs_failure h (snd (on_tool_error err run_id p h))
        \<and> logs_failure h (snd (on_retriever_end outv run_id p h))
        \<and> logs_failure h (snd (on_retriever_error err run_id p h))
        \<and> logs_failure h (snd (on_agent_action outv run_id p h))
        \<and> logs_failure h (snd (on_agent_finish outv run_id p h)))
   \<and> (p = None \<or> runs h (UuidKey (the p)) = None \<longrightarrow>
        logs_failure h (snd (on_tool_start serialized input_str run_id p tags metadata kwargs h))
        \<and> logs_failure h
             (snd (on_retriever_start serialized input_str run_id p tags metadata kwargs h)))
   \<and> (p \<noteq> None \<and> runs h (UuidKey (the p)) = None \<longrightarrow>
        logs_failure h (snd (on_chain_start serialized inputs run_id p tags metadata kwargs h)))
   \<and> (get_langchain_run_name serialized kwargs = Inl e \<longrightarrow>
        logs_failure h (snd (on_chain_start serialized inputs run_id p tags metadata kwargs h))
        \<and> logs_failure h (snd (on_tool_start serialized input_str run_id p tags metadata kwargs h))
        \<and> logs_failure h
             (snd (on_retriever_start serialized input_str run_id p tags metadata kwargs h))
        \<and> logs_failure h (snd (on_llm_start ex serialized inputs run_id p tags metadata kwargs h))
        \<and> logs_failure h
             (snd (on_chat_model_start ex serialized inputs run_id p tags metadata kwargs h)))
   \<and> (last_candidate response = Inl e \<or> token_usage response = Inl e
        \<or> (last_candidate response = Inr c \<and> extract_response c = Inl e) \<longrightarrow>
        logs_failure h (snd (on_llm_end response run_id p h)))
   \<and> (ex serialized kwargs = Inl e \<longrightarrow>
        LogException e
          \<in> set (logged (snd (on_llm_start ex serialized inputs run_id p tags metadata kwargs h)))
        \<and> (\<not> dict_has kwargs ''prompts'' \<longrightarrow>
             LogException e
               \<in> set (logged (snd (on_chat_model_start ex serialized inputs run_id p tags metadata
                                       kwargs h)))))
   \<and> (sdk_logs (snd (on_chain_start serialized inputs run_id p tags metadata kwargs h)) = sdk_logs h
        \<and> sdk_logs (snd (on_chain_end outv run_id p h)) = sdk_logs h
        \<and> sdk_logs (snd (on_chain_error err run_id p h)) = sdk_logs h
        \<and> sdk_logs (snd (on_llm_end response run_id p h)) = sdk_logs h
        \<and> sdk_logs (snd (on_llm_error err run_id p h)) = sdk_logs h
        \<and> sdk_logs (snd (on_tool_start serialized input_str run_id p tags metadata kwargs h))
            = sdk_logs h
        \<and> sdk_logs (snd (on_tool_end input_str run_id p h)) = sdk_logs h
        \<and> sdk_logs (snd (on_tool_error err run_id p h)) = sdk_logs h
        \<and> sdk_logs (snd (on_retriever_start serialized input_str run_id p tags metadata kwargs h))
            = sdk_logs h
        \<and> sdk_logs (snd (on_retriever_end outv run_id p h)) = sdk_logs h
        \<and> sdk_logs (snd (on_retriever_error err run_id p h)) = sdk_logs h
        \<and> sdk_logs (snd (on_agent_action outv run_id p h)) = sdk_logs h
        \<and> sdk_logs (snd (on_agent_finish outv run_id p h)) = sdk_logs h)
   \<and> sdk_logs (snd (on_llm_start ex serialized inputs run_id p tags metadata kwargs h))
        = sdk_logs h @ model_name_report ex serialized kwargs
   \<and> sdk_logs (snd (on_chat_model_start ex serialized inputs run_id p tags metadata kwargs h))
        = sdk_logs h @ (if dict_has kwargs ''prompts'' then []
                         else model_name_report ex serialized kwargs)"
proof -
  have 1: "fst (on_chain_start serialized inputs run_id p tags metadata kwargs h) = Returned
    \<and> fst (on_chain_end outv run_id p h) = Returned
    \<and> fst (on_chain_error err run_id p h) = Returned
    \<and> fst (on_llm_start ex serialized inputs run_id p tags metadata kwargs h) = Returned
    \<and> fst (on_chat_model_start ex serialized inputs run_id p tags metadata kwargs h) = Returned
    \<and> fst (on_llm_end response run_id p h) = Returned
    \<and> fst (on_llm_error err run_id p h) = Returned
    \<and> fst (on_tool_start serialized input_str run_id p tags metadata kwargs h) = Returned
    \<and> fst (on_tool_end input_str run_id p h) = Returned
    \<and> fst (on_tool_error err run_id p h) = Returned
    \<and> fst (on_retriever_start serialized input_str run_id p tags metadata kwargs h) = Returned
    \<and> fst (on_retriever_end outv run_id p h) = Returned
    \<and> fst (on_retriever_error err run_id p h) = Returned
    \<and> fst (on_agent_action outv run_id p h) = Returned
    \<and> fst (on_agent_finish outv run_id p h) = Returned"
    by (simp add: on_chain_start_def on_chain_end_def on_chain_error_def on_llm_start_def
        on_chat_model_start_def on_llm_end_def on_llm_error_def on_tool_start_def
        on_tool_end_def on_tool_error_def on_retriever_start_def on_retriever_end_def
        on_retriever_error_def on_agent_action_def on_agent_finish_def fst_try_except)
  have 2: "runs h (UuidKey run_id) = None \<longrightarrow>
        logs_failure h (snd (on_chain_end outv run_id p h))
        \<and> logs_failure h (snd (on_chain_error err run_id p h))
        \<and> logs_failure h (snd (on_llm_end response run_id p h))
        \<and> logs_failure h (snd (on_llm_error err run_id p h))
        \<and> logs_failure h (snd (on_tool_end input_str run_id p h))
        \<and> logs_failure h (snd (on_tool_error err run_id p h))
        \<and> logs_failure h (snd (on_retriever_end outv run_id p h))
        \<and> logs_failure h (snd (on_retriever_error err run_id p h))
        \<and> logs_failure h (snd (on_agent_action outv run_id p h))
        \<and> logs_failure h (snd (on_agent_finish outv run_id p h))"
    by (simp add: on_chain_end_def on_chain_error_def on_llm_error_def on_tool_end_def
        on_retriever_end_def on_agent_finish_def end_run_unregistered_logs
        error_run_unregistered_logs other_unregistered_logs)
  have 3: "p = None \<or> runs h (UuidKey (the p)) = None \<longrightarrow>
        logs_failure h (snd (on_tool_start serialized input_str run_id p tags metadata kwargs h))
        \<and> logs_failure h
             (snd (on_retriever_start serialized input_str run_id p tags metadata kwargs h))"
    using start_without_parent_logs [of p h serialized input_str run_id tags metadata kwargs]
    by blast
  have 4: "p \<noteq> None \<and> runs h (UuidKey (the p)) = None \<longrightarrow>
        logs_failure h (snd (on_chain_start serialized inputs run_id p tags metadata kwargs h))"
    using chain_start_unknown_parent_logs [of p h serialized inputs run_id tags metadata kwargs]
    by blast
  have 5: "get_langchain_run_name serialized kwargs = Inl e \<longrightarrow>
        logs_failure h (snd (on_chain_start serialized inputs run_id p tags metadata kwargs h))
        \<and> logs_failure h (snd (on_tool_start serialized input_str run_id p tags metadata kwargs h))
        \<and> logs_failure h
             (snd (on_retriever_start serialized input_str run_id p tags metadata kwargs h))
        \<and> logs_failure h (snd (on_llm_start ex serialized inputs run_id p tags metadata kwargs h))
        \<and> logs_failure h
             (snd (on_chat_model_start ex serialized inputs run_id p tags metadata kwargs h))"
  proof
    assume n: "get_langchain_run_name serialized kwargs = Inl e"
    have a: "logs_failure h (on_llm_action ex serialized run_id inputs p tags metadata kwargs
               (log_debug msg h))" for msg
      using name_failure_logs(4) [OF n] by (rule logs_failure_after_debug)
    show "logs_failure h (snd (on_chain_start serialized inputs run_id p tags metadata kwargs h))
        \<and> logs_failure h (snd (on_tool_start serialized input_str run_id p tags metadata kwargs h))
        \<and> logs_failure h
             (snd (on_retriever_start serialized input_str run_id p tags metadata kwargs h))
        \<and> logs_failure h (snd (on_llm_start ex serialized inputs run_id p tags metadata kwargs h))
        \<and> logs_failure h
             (snd (on_chat_model_start ex serialized inputs run_id p tags metadata kwargs h))"
      using name_failure_logs(1,2,3) [OF n] a
      by (simp add: llm_start_snd chat_model_start_cases)
  qed
  have 6: "last_candidate response = Inl e \<or> token_usage response = Inl e
        \<or> (last_candidate response = Inr c \<and> extract_response c = Inl e) \<longrightarrow>
        logs_failure h (snd (on_llm_end response run_id p h))"
    using response_failure_logs [of response e c h run_id p] by blast
  have 7: "ex serialized kwargs = Inl e \<longrightarrow>
        LogException e
          \<in> set (logged (snd (on_llm_start ex serialized inputs run_id p tags metadata kwargs h)))
        \<and> (\<not> dict_has kwargs ''prompts'' \<longrightarrow>
             LogException e
               \<in> set (logged (snd (on_chat_model_start ex serialized inputs run_id p tags metadata
                                       kwargs h))))"
    by (simp add: llm_start_snd chat_model_start_cases llm_action_logs_model_name_failure)
  have 8: "sdk_logs (snd (on_chain_start serialized inputs run_id p tags metadata kwargs h)) = sdk_logs h
        \<and> sdk_logs (snd (on_chain_end outv run_id p h)) = sdk_logs h
        \<and> sdk_logs (snd (on_chain_error err run_id p h)) = sdk_logs h
        \<and> sdk_logs (snd (on_llm_end response run_id p h)) = sdk_logs h
        \<and> sdk_logs (snd (on_llm_error err run_id p h)) = sdk_logs h
        \<and> sdk_logs (snd (on_tool_start serialized input_str run_id p tags metadata kwargs h))
            = sdk_logs h
        \<and> sdk_logs (snd (on_tool_end input_str run_id p h)) = sdk_logs h
        \<and> sdk_logs (snd (on_tool_error err run_id p h)) = sdk_logs h
        \<and> sdk_logs (snd (on_retriever_start serialized input_str run_id p tags metadata kwargs h))
            = sdk_logs h
        \<and> sdk_logs (snd (on_retriever_end outv run_id p h)) = sdk_logs h
        \<and> sdk_logs (snd (on_retriever_error err run_id p h)) = sdk_logs h
        \<and> sdk_logs (snd (on_agent_action outv run_id p h)) = sdk_logs h
        \<and> sdk_logs (snd (on_agent_finish outv run_id p h)) = sdk_logs h"
    by (simp add: on_chain_end_def on_chain_error_def on_llm_error_def on_tool_end_def
        on_retriever_end_def on_agent_finish_def sdk_logs_end_run sdk_logs_error_run
        sdk_logs_chain_start sdk_logs_tool_start sdk_logs_retriever_start sdk_logs_tool_error
        sdk_logs_retriever_error sdk_logs_agent_action sdk_logs_llm_end)
  have 9: "sdk_logs (snd (on_llm_start ex serialized inputs run_id p tags metadata kwargs h))
        = sdk_logs h @ model_name_report ex serialized kwargs"
    by (simp add: llm_start_snd sdk_logs_llm_action)
  have 10: "sdk_logs (snd (on_chat_model_start ex serialized inputs run_id p tags metadata kwargs h))
        = sdk_logs h @ (if dict_has kwargs ''prompts'' then []
                         else model_name_report ex serialized kwargs)"
    by (simp add: chat_model_start_cases sdk_logs_llm_action)
  from 1 2 3 4 5 6 7 8 9 10 show ?thesis by blast
qed

theorem notifications_never_raise_witness:
  "runs root_started (UuidKey (UUID ''run-z'')) = None
   \<and> runs root_started (UuidKey (UUID ''run-x'')) = None
   \<and> get_langchain_run_name nameless_descriptor llm_kwargs = Inl IndexError
   \<and> token_usage no_usage_response = Inl KeyError
   \<and> failing_model_name nameless_descriptor llm_kwargs = Inl (ValueError ''no model'')
   \<and> dict_has llm_kwargs ''prompts'' = False
   \<and> fst (on_chain_end (PStr ''bye'') (UUID ''run-z'') (Some (UUID ''run-x'')) root_started) = Returned
   \<and> logs_failure root_started
        (snd (on_chain_end (PStr ''bye'') (UUID ''run-z'') (Some (UUID ''run-x'')) root_started))
   \<and> logs_failure root_started
        (snd (on_tool_start nameless_descriptor ''2+2'' (UUID ''run-z'') (Some (UUID ''run-x''))
                None None llm_kwargs root_started))
   \<and> logs_failure root_started
        (snd (on_chain_start nameless_descriptor (PStr ''hi'') (UUID ''run-z'') (Some (UUID ''run-x''))
                None None llm_kwargs root_started))
   \<and> logs_failure root_started
        (snd (on_llm_end no_usage_response (UUID ''run-a'') None root_started))
   \<and> LogException (ValueError ''no model'')
        \<in> set (logged (snd (on_llm_start failing_model_name nameless_descriptor (PStr ''hi'')
                  (UUID ''run-z'') (Some (UUID ''run-x'')) None None llm_kwargs root_started)))
   \<and> sdk_logs (snd (on_llm_start failing_model_name nameless_descriptor (PStr ''hi'')
                  (UUID ''run-z'') (Some (UUID ''run-x'')) None None llm_kwargs root_started))
        = [SdkLog ''unable to parse model name'' llm_kwargs nameless_descriptor
             (Some (ValueError ''no model''))]
   \<and> sdk_logs (snd (on_chat_model_start failing_model_name nameless_descriptor (PStr ''hi'')
                  (UUID ''run-z'') (Some (UUID ''run-x'')) None None llm_kwargs root_started))
        = [SdkLog ''unable to parse model name'' llm_kwargs nameless_descriptor
             (Some (ValueError ''no model''))]
   \<and> sdk_logs (snd (on_chain_start nameless_descriptor (PStr ''hi'') (UUID ''run-z'')
                  (Some (UUID ''run-x'')) None None llm_kwargs root_started)) = []
   \<and> sdk_logs (snd (on_llm_end no_usage_response (UUID ''run-a'') None root_started)) = []"
proof -
  have z: "runs root_started (UuidKey (UUID ''run-z'')) = None"
    by (simp add: root_started_eq)
  have m: "failing_model_name nameless_descriptor llm_kwargs = Inl (ValueError ''no model'')"
    "model_name_report failing_model_name nameless_descriptor llm_kwargs
       = [SdkLog ''unable to parse model name'' llm_kwargs nameless_descriptor
            (Some (ValueError ''no model''))]"
    by (simp_all add: failing_model_name_def model_name_report_def)
  let ?c = "\<lparr>c_text = Some ''answer'', c_message = Some \<lparr>additional_kwargs = []\<rparr>\<rparr>"
  note w1 = notifications_never_raise [of nameless_descriptor "PStr ''hi''" "UUID ''run-z''"
      "Some (UUID ''run-x'')" None None llm_kwargs root_started "PStr ''bye''" "ErrorObj ''boom''"
      failing_model_name no_usage_response "''2+2''" IndexError ?c]
  note w2 = notifications_never_raise [of nameless_descriptor "PStr ''hi''" "UUID ''run-z''"
      "Some (UUID ''run-x'')" None None llm_kwargs root_started "PStr ''bye''" "ErrorObj ''boom''"
      failing_model_name no_usage_response "''2+2''" "ValueError ''no model''" ?c]
  note w3 = notifications_never_raise [of nameless_descriptor "PStr ''hi''" "UUID ''run-a''"
      None None None llm_kwargs root_started "PStr ''bye''" "ErrorObj ''boom''"
      failing_model_name no_usage_response "''2+2''" KeyError ?c]
  show ?thesis
    using z root_started_fields(4) nameless_names(1) no_usage_response_fields(1) m llm_names(4)
      root_started_sdk_logs w1 w2 w3
    by simp
qed

text \<open>
  C1 as stated fails for the other extraction failures, which are logged and not
  reported: a tool start whose name cannot be resolved leaves one exception in the log and
  no diagnostic event in the queue.
\<close>

theorem name_failure_is_only_logged:
  "get_langchain_run_name nameless_descriptor [] = Inl IndexError
   \<and> on_tool_start nameless_descriptor ''2+2'' (UUID ''run-b'') (Some (UUID ''run-a'')) (Some [''t''])
        None [] root_started
      = (Returned, root_started\<lparr>logged := logged root_started
                                     @ [LogDebug ''on tool start'', LogException IndexError]\<rparr>)
   \<and> filter is_sdk_log (task_manager (snd (on_tool_start nameless_descriptor ''2+2'' (UUID ''run-b'')
        (Some (UUID ''run-a'')) (Some [''t'']) None [] root_started))) = []"
proof -
  have n: "get_langchain_run_name nameless_descriptor [] = Inl IndexError"
    by (simp add: name_defs nameless_descriptor_def)
  have t: "on_tool_start nameless_descriptor ''2+2'' (UUID ''run-b'') (Some (UUID ''run-a'')) (Some [''t''])
        None [] root_started
      = (Returned, root_started\<lparr>logged := logged root_started
                                     @ [LogDebug ''on tool start'', LogException IndexError]\<rparr>)"
    using root_started_run_a
    by (simp add: on_tool_start_def on_tool_start_body_def n ctl_defs log_defs Let_def in_runs_def
        join_tags_and_metadata_def dict_update_def)
  have q: "filter is_sdk_log (task_manager root_started) = []"
    by (simp add: root_started_eq)
  show ?thesis
    by (simp add: n t q)
qed

end
